theory Spec2Isabelle
  imports Complex_Main
begin

section \<open>Python strings\<close>

text \<open>
  A Python \<open>str\<close> is modelled as a \<open>string\<close>: a list of characters with code points
  0 to 255. A Python \<open>float\<close> is modelled by the real number it denotes (the values the
  code stores are finite, and the code only compares them with constants).
\<close>

definition startswith :: "string \<Rightarrow> string \<Rightarrow> bool" where
  "startswith s p = (take (length p) s = p)"

text \<open>\<open>sub in s\<close>: \<open>sub\<close> occurs in \<open>s\<close> as a contiguous substring.\<close>

fun py_in :: "string \<Rightarrow> string \<Rightarrow> bool" where
  "py_in sub [] = (sub = [])"
| "py_in sub (c # cs) = (startswith (c # cs) sub \<or> py_in sub cs)"

text \<open>
  \<open>str.lower()\<close> on code points below 256: the letters A to Z and the Latin-1 capitals
  192 to 222 (without the multiplication sign 215) move up by 32.
\<close>

definition lower_char :: "char \<Rightarrow> char" where
  "lower_char c =
     (let n = (of_char c :: nat)
      in if (65 \<le> n \<and> n \<le> 90) \<or> (192 \<le> n \<and> n \<le> 222 \<and> n \<noteq> 215)
         then char_of (n + 32) else c)"

definition lower :: "string \<Rightarrow> string" where
  "lower s = map lower_char s"

section \<open>models.py: the Place record\<close>

record Place =
  name :: "string option"
  address :: "string option"
  phone :: "string option"
  website :: "string option"
  image_url :: "string option"
  rating :: "real option"
  reviews_count :: "int option"
  latitude :: "real option"
  longitude :: "real option"

definition new_Place :: Place where
  "new_Place = \<lparr>name = None, address = None, phone = None, website = None,
     image_url = None, rating = None, reviews_count = None,
     latitude = None, longitude = None\<rparr>"

definition has_coordinates :: "Place \<Rightarrow> bool" where
  "has_coordinates self =
     (case latitude self of
        None \<Rightarrow> False
      | Some la \<Rightarrow>
          (case longitude self of
             None \<Rightarrow> False
           | Some lo \<Rightarrow> - 90 \<le> la \<and> la \<le> 90 \<and> - 180 \<le> lo \<and> lo \<le> 180))"

definition origin_place :: Place where
  "origin_place = new_Place\<lparr>name := Some ''Null Island Sod'',
     latitude := Some 0, longitude := Some 0\<rparr>"

definition farm_place :: Place where
  "farm_place = new_Place\<lparr>name := Some ''Green Acres Sod Farm'',
     latitude := Some 37.422, longitude := Some (- 122.084)\<rparr>"

section \<open>Image URL precheck (extractors.py and core.py)\<close>

definition valid_indicators :: "string list" where
  "valid_indicators = [''googleusercontent.com'', ''streetviewpixels'', ''places'',
     ''maps.gstatic.com'', ''.jpg'', ''.jpeg'', ''.png'', ''.webp'']"

definition invalid_indicators :: "string list" where
  "invalid_indicators = [''data:image'', ''blob:'', ''avatar'', ''profile'']"

definition url_scheme_ok :: "string \<Rightarrow> bool" where
  "url_scheme_ok url =
     (startswith url ''http://'' \<or> startswith url ''https://'' \<or> startswith url ''//'')"

text \<open>\<open>extractors.is_valid_image_url\<close>, used by the primary pass.\<close>

definition is_valid_image_url :: "string \<Rightarrow> bool" where
  "is_valid_image_url url =
     (if url = [] then False
      else if \<not> url_scheme_ok url then False
      else let url_lower = lower url;
               has_valid = list_ex (\<lambda>indicator. py_in indicator url_lower) valid_indicators;
               has_invalid = list_ex (\<lambda>indicator. py_in indicator url_lower) invalid_indicators
           in has_valid \<and> \<not> has_invalid)"

text \<open>\<open>GoogleMapsScraper.is_valid_image_url\<close> of core.py, used by the advanced pass.\<close>

definition GoogleMapsScraper_is_valid_image_url :: "string \<Rightarrow> bool" where
  "GoogleMapsScraper_is_valid_image_url url =
     (if url = [] then False
      else if \<not> url_scheme_ok url then False
      else list_ex (\<lambda>indicator. py_in indicator (lower url)) valid_indicators)"

definition avatar_url :: string where
  "avatar_url = ''https://lh3.googleusercontent.com/a/avatar=s64''"

section \<open>More of Python's string methods\<close>

definition whitespace :: "char \<Rightarrow> bool" where
  "whitespace c = ((of_char c :: nat) \<in> {9, 10, 11, 12, 13, 28, 29, 30, 31, 32, 133, 160})"

definition strip :: "string \<Rightarrow> string" where
  "strip s = rev (dropWhile whitespace (rev (dropWhile whitespace s)))"

definition replace_char :: "char \<Rightarrow> string \<Rightarrow> string \<Rightarrow> string" where
  "replace_char c new s = concat (map (\<lambda>x. if x = c then new else [x]) s)"

definition remove_chars :: "string \<Rightarrow> string \<Rightarrow> string" where
  "remove_chars cs s = filter (\<lambda>x. x \<notin> set cs) s"

text \<open>\<open>s.split(sep)\<close> for a separator of one character.\<close>

fun split_on :: "char \<Rightarrow> string \<Rightarrow> string list" where
  "split_on sep [] = [[]]"
| "split_on sep (c # cs) =
     (if c = sep then [] # split_on sep cs
      else (case split_on sep cs of
              [] \<Rightarrow> [[c]]
            | w # ws \<Rightarrow> (c # w) # ws))"

text \<open>\<open>s.partition(sep)\<close>: the text before the first separator, whether it was found, the rest.\<close>

definition partition_on :: "char \<Rightarrow> string \<Rightarrow> string \<times> bool \<times> string" where
  "partition_on sep s =
     (takeWhile (\<lambda>c. c \<noteq> sep) s,
      sep \<in> set s,
      drop 1 (dropWhile (\<lambda>c. c \<noteq> sep) s))"

definition digit :: "char \<Rightarrow> bool" where
  "digit c = (c \<in> set ''0123456789'')"

definition digit_value :: "char \<Rightarrow> nat" where
  "digit_value c = of_char c - 48"

definition nat_of_digits :: "string \<Rightarrow> nat" where
  "nat_of_digits ds = foldl (\<lambda>n c. 10 * n + digit_value c) 0 ds"

section \<open>Regular expressions of the \<open>re\<close> module\<close>

datatype quant = One | Opt | Star | Plus | Lazy

datatype tok =
    Atom "char \<Rightarrow> bool" quant
  | GroupOpen
  | GroupClose
  | AheadAmpOrEnd
  | OptSeq "((char \<Rightarrow> bool) \<times> quant) list"

fun tok_weight :: "tok \<Rightarrow> nat" where
  "tok_weight (OptSeq g) = length g + 2"
| "tok_weight t = 1"

type_synonym caps = "string list \<times> string option"

definition push :: "char \<Rightarrow> caps \<Rightarrow> caps" where
  "push x st = (fst st, map_option (\<lambda>g. g @ [x]) (snd st))"

function (sequential) rmatch :: "tok list \<Rightarrow> string \<Rightarrow> caps \<Rightarrow> (string list \<times> string) option" where
  "rmatch [] s st = Some (fst st, s)"
| "rmatch (GroupOpen # ts) s st = rmatch ts s (fst st, Some [])"
| "rmatch (GroupClose # ts) s st =
     rmatch ts s (fst st @ [case snd st of Some g \<Rightarrow> g | None \<Rightarrow> []], None)"
| "rmatch (AheadAmpOrEnd # ts) s st =
     (case s of
        [] \<Rightarrow> rmatch ts s st
      | c # cs \<Rightarrow>
          if c = CHR ''&'' \<or> (c = CHR 0x0A \<and> cs = []) then rmatch ts s st else None)"
| "rmatch (Atom p One # ts) s st =
     (case s of
        [] \<Rightarrow> None
      | x # xs \<Rightarrow> if p x then rmatch ts xs (push x st) else None)"
| "rmatch (Atom p Opt # ts) s st =
     (case s of
        [] \<Rightarrow> rmatch ts s st
      | x # xs \<Rightarrow>
          if p x then
            (case rmatch ts xs (push x st) of
               Some r \<Rightarrow> Some r
             | None \<Rightarrow> rmatch ts s st)
          else rmatch ts s st)"
| "rmatch (Atom p Star # ts) s st =
     (case s of
        [] \<Rightarrow> rmatch ts s st
      | x # xs \<Rightarrow>
          if p x then
            (case rmatch (Atom p Star # ts) xs (push x st) of
               Some r \<Rightarrow> Some r
             | None \<Rightarrow> rmatch ts s st)
          else rmatch ts s st)"
| "rmatch (Atom p Plus # ts) s st =
     (case s of
        [] \<Rightarrow> None
      | x # xs \<Rightarrow> if p x then rmatch (Atom p Star # ts) xs (push x st) else None)"
| "rmatch (Atom p Lazy # ts) s st =
     (case rmatch ts s st of
        Some r \<Rightarrow> Some r
      | None \<Rightarrow>
          (case s of
             [] \<Rightarrow> None
           | x # xs \<Rightarrow> if p x then rmatch (Atom p Lazy # ts) xs (push x st) else None))"
| "rmatch (OptSeq g # ts) s st =
     (case rmatch (map (\<lambda>(p, q). Atom p q) g @ ts) s st of
        Some r \<Rightarrow> Some r
      | None \<Rightarrow> rmatch ts s st)"
  by pat_completeness auto
termination
  by (relation "measures [\<lambda>(ts, s, st). length s, \<lambda>(ts, s, st). sum_list (map tok_weight ts)]")
     (auto simp: comp_def case_prod_unfold sum_list_triv)

definition lit :: "string \<Rightarrow> tok list" where
  "lit s = map (\<lambda>c. Atom (\<lambda>x. x = c) One) s"

definition dot :: "char \<Rightarrow> bool" where
  "dot c = (c \<noteq> CHR 0x0A)"

definition number_group :: "tok list" where
  "number_group = [GroupOpen, Atom (\<lambda>x. x = CHR ''-'') Opt, Atom digit Plus,
     Atom (\<lambda>x. x = CHR ''.'') Opt, Atom digit Star, GroupClose]"

text \<open>
  \<open>re.search\<close>: the leftmost match, as the text before it, its groups and the text
  after it.
\<close>

fun re_search :: "tok list \<Rightarrow> string \<Rightarrow> (string \<times> string list \<times> string) option" where
  "re_search p [] =
     (case rmatch p [] ([], None) of
        Some (g, rest) \<Rightarrow> Some ([], g, rest)
      | None \<Rightarrow> None)"
| "re_search p (c # cs) =
     (case rmatch p (c # cs) ([], None) of
        Some (g, rest) \<Rightarrow> Some ([], g, rest)
      | None \<Rightarrow>
          (case re_search p cs of
             Some (pre, g, rest) \<Rightarrow> Some (c # pre, g, rest)
           | None \<Rightarrow> None))"

text \<open>
  The successive matches of \<open>re.findall\<close>, left to right, each as the matched text and
  its groups; a search starts where the last match ended (one character on after an empty
  match).
\<close>

function finditer :: "tok list \<Rightarrow> string \<Rightarrow> (string \<times> string list) list" where
  "finditer p s =
     (case rmatch p s ([], None) of
        Some (g, rest) \<Rightarrow>
          if length rest < length s
          then (take (length s - length rest) s, g) # finditer p rest
          else (case s of [] \<Rightarrow> [([], g)] | c # cs \<Rightarrow> ([], g) # finditer p cs)
      | None \<Rightarrow> (case s of [] \<Rightarrow> [] | c # cs \<Rightarrow> finditer p cs))"
  by pat_completeness auto
termination
  by (relation "measure (\<lambda>(p, s). length s)") auto

text \<open>\<open>re.sub(p, '', s)\<close>: every match is removed.\<close>

function re_sub_empty :: "tok list \<Rightarrow> string \<Rightarrow> string" where
  "re_sub_empty p s =
     (case rmatch p s ([], None) of
        Some (g, rest) \<Rightarrow>
          if length rest < length s then re_sub_empty p rest
          else (case s of [] \<Rightarrow> [] | c # cs \<Rightarrow> c # re_sub_empty p cs)
      | None \<Rightarrow> (case s of [] \<Rightarrow> [] | c # cs \<Rightarrow> c # re_sub_empty p cs))"
  by pat_completeness auto
termination
  by (relation "measure (\<lambda>(p, s). length s)") auto

declare finditer.simps [simp del]
declare re_sub_empty.simps [simp del]

section \<open>The built-in \<open>float\<close>\<close>

datatype float_result = FloatError | NonFinite | Finite real

text \<open>
  A float is a binary64 number. \<open>binary64 n d\<close> is the binary64 number nearest to the
  fraction \<open>n / d\<close>, ties going to the even mantissa, as the conversions of Python round;
  it is \<open>None\<close> when the fraction is too large for a finite number. The exponent of
  the fraction comes from the bit lengths of \<open>n\<close> and \<open>d\<close>; below the normal range the
  spacing of the subnormal numbers is used.
\<close>

function bit_length :: "nat \<Rightarrow> nat" where
  "bit_length n = (if n = 0 then 0 else Suc (bit_length (n div 2)))"
  by pat_completeness auto
termination
  by (relation "measure (\<lambda>n. n)") auto

declare bit_length.simps [simp del]

definition round_half_even :: "nat \<Rightarrow> nat \<Rightarrow> nat" where
  "round_half_even n d =
     (let q = n div d; r = n mod d
      in if 2 * r < d then q
         else if d < 2 * r then q + 1
         else if even q then q else q + 1)"

text \<open>The rounded number as a fraction: numerator and denominator.\<close>

definition binary64_frac :: "nat \<Rightarrow> nat \<Rightarrow> (nat \<times> nat) option" where
  "binary64_frac n d =
     (if n = 0 then Some (0, 1)
      else
        let k = int (bit_length n) - int (bit_length d);
            e = (if (if 0 \<le> k then d * 2 ^ nat k \<le> n else d \<le> n * 2 ^ nat (- k))
                 then k else k - 1);
            s = 52 - max e (- 1022);
            x = (if 0 \<le> s then (round_half_even (n * 2 ^ nat s) d, 2 ^ nat s)
                 else (round_half_even n (d * 2 ^ nat (- s)) * 2 ^ nat (- s), 1))
        in if 2 ^ 1024 * snd x \<le> fst x then None else Some x)"

definition binary64 :: "nat \<Rightarrow> nat \<Rightarrow> real option" where
  "binary64 n d = map_option (\<lambda>(a, b). real a / real b) (binary64_frac n d)"

text \<open>
  \<open>float(s)\<close> reads a decimal number with an optional sign, fraction and exponent, or
  one of \<open>inf\<close>, \<open>infinity\<close> and \<open>nan\<close>; any other text raises ValueError. The
  result is the binary64 number nearest to the decimal text, infinite when the text is too
  large. Underscores may stand between two digits; they are removed before the number is
  read.
\<close>

fun underscores_ok :: "char option \<Rightarrow> string \<Rightarrow> bool" where
  "underscores_ok prev [] = True"
| "underscores_ok prev (c # cs) =
     (if c = CHR ''_''
      then (case prev of
              None \<Rightarrow> False
            | Some b \<Rightarrow> digit b \<and> (case cs of [] \<Rightarrow> False | d # _ \<Rightarrow> digit d))
           \<and> underscores_ok (Some c) cs
      else underscores_ok (Some c) cs)"

definition split_sign :: "string \<Rightarrow> real \<times> string" where
  "split_sign s =
     (case s of
        [] \<Rightarrow> (1, s)
      | c # cs \<Rightarrow> if c = CHR ''-'' then (- 1, cs) else if c = CHR ''+'' then (1, cs) else (1, s))"

text \<open>The digits \<open>ds\<close> with \<open>k\<close> of them after the point, times ten to the power \<open>e\<close>.\<close>

definition decimal_binary64 :: "string \<Rightarrow> nat \<Rightarrow> int \<Rightarrow> real option" where
  "decimal_binary64 ds k e =
     (if int k \<le> e then binary64 (nat_of_digits ds * 10 ^ nat (e - int k)) 1
      else binary64 (nat_of_digits ds) (10 ^ nat (int k - e)))"

text \<open>The exponent part: empty, or \<open>e\<close> or \<open>E\<close>, an optional sign and digits.\<close>

definition exponent :: "string \<Rightarrow> int option" where
  "exponent s =
     (case s of
        [] \<Rightarrow> Some 0
      | c # cs \<Rightarrow>
          if c = CHR ''e'' \<or> c = CHR ''E'' then
            (let (sg, ds) = (case cs of
                               [] \<Rightarrow> (1, cs)
                             | d # r \<Rightarrow> if d = CHR ''-'' then (- 1, r)
                                        else if d = CHR ''+'' then (1, r) else (1, cs))
             in if ds \<noteq> [] \<and> list_all digit ds then Some (sg * int (nat_of_digits ds)) else None)
          else None)"

definition py_float :: "string \<Rightarrow> float_result" where
  "py_float s =
     (let t = strip s in
      if \<not> underscores_ok None t then FloatError
      else
        let (sg, r) = split_sign (remove_chars ''_'' t) in
        if lower r \<in> set [''inf'', ''infinity'', ''nan''] then NonFinite
        else
          let ip = takeWhile digit r;
              r1 = dropWhile digit r;
              fp = (case r1 of [] \<Rightarrow> [] | c # cs \<Rightarrow> if c = CHR ''.'' then takeWhile digit cs else []);
              r2 = (case r1 of [] \<Rightarrow> [] | c # cs \<Rightarrow> if c = CHR ''.'' then dropWhile digit cs else r1)
          in if ip = [] \<and> fp = [] then FloatError
             else (case exponent r2 of
                     None \<Rightarrow> FloatError
                   | Some e \<Rightarrow>
                       (case decimal_binary64 (ip @ fp) (length fp) e of
                          None \<Rightarrow> NonFinite
                        | Some x \<Rightarrow> Finite (sg * x))))"

section \<open>Image URL cleaning (extractors.py and core.py)\<close>

definition size_s_pattern :: "tok list" where
  "size_s_pattern = lit ''=s'' @ [Atom digit Plus] @ lit ''-'' @ [Atom dot Lazy, AheadAmpOrEnd]"

definition size_wh_pattern :: "tok list" where
  "size_wh_pattern = lit ''=w'' @ [Atom digit Plus] @ lit ''-h'' @ [Atom digit Plus]
     @ [Atom dot Lazy, AheadAmpOrEnd]"

definition s_param_pattern :: "tok list" where
  "s_param_pattern = lit ''=s'' @ [Atom digit Plus]"

definition upgrade_protocol :: "string \<Rightarrow> string" where
  "upgrade_protocol url = (if startswith url ''//'' then ''https:'' @ url else url)"

definition strip_size_params :: "string \<Rightarrow> string" where
  "strip_size_params url = re_sub_empty size_wh_pattern (re_sub_empty size_s_pattern url)"

text \<open>\<open>extractors.clean_image_url\<close>, used by the primary pass.\<close>

definition clean_image_url :: "string \<Rightarrow> string option" where
  "clean_image_url url0 =
     (if url0 = [] then None
      else
        let url = upgrade_protocol url0 in
        if py_in ''googleusercontent.com'' url then
          let url = strip_size_params url in
          if \<not> py_in ''='' url then Some (url @ ''=s800'')
          else if re_search s_param_pattern url = None then Some (url @ ''&s=800'')
          else Some url
        else Some url)"

text \<open>\<open>GoogleMapsScraper.clean_image_url\<close> of core.py, used by the advanced pass.\<close>

definition GoogleMapsScraper_clean_image_url :: "string \<Rightarrow> string option" where
  "GoogleMapsScraper_clean_image_url url0 =
     (if url0 = [] then None
      else
        let url = upgrade_protocol url0 in
        if py_in ''googleusercontent.com'' url then
          let url = strip_size_params url in
          if \<not> py_in ''='' url then Some (url @ ''=s1000'')
          else Some (url @ ''&s=1000'')
        else Some url)"

definition cdn_image_url :: string where
  "cdn_image_url = ''https://lh3.googleusercontent.com/p/XYZ=s100-k-no''"


section \<open>urllib.parse (CPython 3.11)\<close>

datatype exn = ValueError | IndexError | OverflowError | BrowserError

text \<open>
  Two routines of the library are taken as given: the decoding of percent escapes by
  \<open>unquote\<close> on a string that contains a percent sign, and the test of a bracketed host
  by \<open>_check_bracketed_host\<close> (true when it does not raise).
\<close>

record pylib =
  percent_decode :: "string \<Rightarrow> string"
  bracketed_host_ok :: "string \<Rightarrow> bool"

record SplitResult =
  scheme :: string
  netloc :: string
  path :: string
  query :: string
  fragment :: string

definition c0_control_or_space :: "char \<Rightarrow> bool" where
  "c0_control_or_space c = ((of_char c :: nat) \<le> 32)"

definition ascii_alpha :: "char \<Rightarrow> bool" where
  "ascii_alpha c =
     (c \<in> set ''abcdefghijklmnopqrstuvwxyz'' \<or> c \<in> set ''ABCDEFGHIJKLMNOPQRSTUVWXYZ'')"

definition scheme_char :: "char \<Rightarrow> bool" where
  "scheme_char c = (ascii_alpha c \<or> digit c \<or> c \<in> set ''+-.'')"

definition split_scheme :: "string \<Rightarrow> string \<times> string" where
  "split_scheme url =
     (let pre = takeWhile (\<lambda>c. c \<noteq> CHR '':'') url in
      if CHR '':'' \<in> set url \<and> pre \<noteq> [] \<and> ascii_alpha (hd url) \<and> list_all scheme_char pre
      then (lower pre, drop (length pre + 1) url)
      else ([], url))"

definition netloc_end :: "char \<Rightarrow> bool" where
  "netloc_end c = (c \<in> set ''/?#'')"

definition urlsplit :: "pylib \<Rightarrow> string \<Rightarrow> exn + SplitResult" where
  "urlsplit L url0 =
     (let url = remove_chars [CHR 0x09, CHR 0x0D, CHR 0x0A] (dropWhile c0_control_or_space url0);
          (sch, url) = split_scheme url;
          has_netloc = (take 2 url = ''//'');
          nl = (if has_netloc then takeWhile (\<lambda>c. \<not> netloc_end c) (drop 2 url) else []);
          url = (if has_netloc then dropWhile (\<lambda>c. \<not> netloc_end c) (drop 2 url) else url)
      in
        if has_netloc \<and> ((CHR ''['' \<in> set nl \<and> CHR '']'' \<notin> set nl) \<or>
                          (CHR '']'' \<in> set nl \<and> CHR ''['' \<notin> set nl))
        then Inl ValueError
        else if has_netloc \<and> CHR ''['' \<in> set nl \<and> CHR '']'' \<in> set nl \<and>
                \<not> bracketed_host_ok L
                    (takeWhile (\<lambda>c. c \<noteq> CHR '']'') (drop 1 (dropWhile (\<lambda>c. c \<noteq> CHR ''['') nl)))
        then Inl ValueError
        else
          let frag = (if CHR ''#'' \<in> set url then drop 1 (dropWhile (\<lambda>c. c \<noteq> CHR ''#'') url) else []);
              url = takeWhile (\<lambda>c. c \<noteq> CHR ''#'') url;
              q = (if CHR ''?'' \<in> set url then drop 1 (dropWhile (\<lambda>c. c \<noteq> CHR ''?'') url) else []);
              url = takeWhile (\<lambda>c. c \<noteq> CHR ''?'') url
          in Inr \<lparr>scheme = sch, netloc = nl, path = url, query = q, fragment = frag\<rparr>)"

text \<open>
  \<open>urlparse\<close> is \<open>urlsplit\<close> with the parameters cut off the path; the code reads the
  network location and the query only.
\<close>

definition urlparse :: "pylib \<Rightarrow> string \<Rightarrow> exn + SplitResult" where
  "urlparse L url = urlsplit L url"

definition unquote_plus :: "pylib \<Rightarrow> string \<Rightarrow> string" where
  "unquote_plus L s =
     (let s = replace_char (CHR ''+'') '' '' s in
      if CHR ''%'' \<notin> set s then s else percent_decode L s)"

definition parse_qsl :: "pylib \<Rightarrow> string \<Rightarrow> (string \<times> string) list" where
  "parse_qsl L qs =
     (if qs = [] then []
      else concat (map (\<lambda>name_value.
             if name_value \<noteq> [] then
               (case partition_on (CHR ''='') name_value of
                  (nm, has_eq, val) \<Rightarrow>
                    if val \<noteq> [] then [(unquote_plus L nm, unquote_plus L val)] else [])
             else [])
           (split_on (CHR ''&'') qs)))"

text \<open>\<open>parse_qs(qs)[key]\<close>: the values of the key in order; the key is absent when there are none.\<close>

definition parse_qs :: "pylib \<Rightarrow> string \<Rightarrow> string \<Rightarrow> string list" where
  "parse_qs L qs key = map snd (filter (\<lambda>(nm, val). nm = key) (parse_qsl L qs))"

section \<open>Website URL cleaning (extractors.py)\<close>

definition excluded_domains :: "string list" where
  "excluded_domains = [''google.com'', ''gstatic.com'', ''googleapis.com'',
     ''maps.google.com'', ''youtube.com'', ''facebook.com/tr'']"

definition unwrap_redirect :: "pylib \<Rightarrow> string \<Rightarrow> exn + string" where
  "unwrap_redirect L url =
     (if py_in ''google.com/url?q='' url then
        (case urlparse L url of
           Inl e \<Rightarrow> Inl e
         | Inr r \<Rightarrow>
             (case parse_qs L (query r) ''q'' of
                [] \<Rightarrow> Inr url
              | v # _ \<Rightarrow> Inr v))
      else Inr url)"

definition add_protocol :: "string \<Rightarrow> string" where
  "add_protocol url =
     (if startswith url ''www.'' then ''https://'' @ url
      else if \<not> (startswith url ''http://'' \<or> startswith url ''https://'') then ''https://'' @ url
      else url)"

definition clean_website_url :: "pylib \<Rightarrow> string \<Rightarrow> string option" where
  "clean_website_url L url0 =
     (case unwrap_redirect L url0 of
        Inl e \<Rightarrow> None
      | Inr url1 \<Rightarrow>
          let url = add_protocol (strip url1) in
          (case urlparse L url of
             Inl e \<Rightarrow> None
           | Inr parsed_url \<Rightarrow>
               if netloc parsed_url \<noteq> [] \<and> CHR ''.'' \<in> set (netloc parsed_url) then
                 if \<not> list_ex (\<lambda>domain. py_in domain (lower (netloc parsed_url))) excluded_domains
                 then Some url
                 else None
               else None))"

text \<open>
  A stand-in for the two library routines, for inputs without a percent sign and without
  brackets, on which neither routine is called.
\<close>

definition plain_lib :: pylib where
  "plain_lib = \<lparr>percent_decode = (\<lambda>s. s), bracketed_host_ok = (\<lambda>h. False)\<rparr>"

definition nested_redirect :: string where
  "nested_redirect =
     ''https://www.google.com/url?q=https://example.com/google.com/url?q=example.org''"

section \<open>The browsing collaborator\<close>

text \<open>
  An element handle answers \<open>text_content()\<close> and \<open>get_attribute(name)\<close>; each call
  returns a value (\<open>None\<close> for Python's None) or raises.
\<close>

record element =
  text_content :: "exn + string option"
  get_attribute :: "string \<Rightarrow> exn + string option"

text \<open>
  A page state: its address, its rendered source, the elements a selector matches, whether
  \<open>wait_for_timeout\<close> returns, and the page state after a click on the first element
  of a selector (\<open>None\<close> when the click raises). The view changes only when the scraper
  clicks.
\<close>

datatype page = Page
  (url: string)
  (content: "exn + string")
  (locator: "string \<Rightarrow> exn + element list")
  (waits: bool)
  (click: "string \<Rightarrow> page option")

text \<open>\<open>page.locator(selector).first\<close> with its \<open>count() > 0\<close> test.\<close>

definition first_match :: "page \<Rightarrow> string \<Rightarrow> exn + element option" where
  "first_match pg selector =
     (case locator pg selector of
        Inl e \<Rightarrow> Inl e
      | Inr [] \<Rightarrow> Inr None
      | Inr (el # _) \<Rightarrow> Inr (Some el))"

text \<open>Python's truth test of an optional string: None and the empty string are false.\<close>

definition truthy :: "string option \<Rightarrow> bool" where
  "truthy x = (case x of None \<Rightarrow> False | Some s \<Rightarrow> s \<noteq> [])"

text \<open>The selector loops: the first selector whose probe yields a value.\<close>

fun first_some :: "('a \<Rightarrow> 'b option) \<Rightarrow> 'a list \<Rightarrow> 'b option" where
  "first_some f [] = None"
| "first_some f (x # xs) = (case f x of Some y \<Rightarrow> Some y | None \<Rightarrow> first_some f xs)"

text \<open>\<open>await el.get_attribute(a) or await el.get_attribute(b)\<close>.\<close>

definition attribute_or :: "element \<Rightarrow> string \<Rightarrow> string \<Rightarrow> exn + string option" where
  "attribute_or el a b =
     (case get_attribute el a of
        Inl e \<Rightarrow> Inl e
      | Inr v \<Rightarrow> if truthy v then Inr v else get_attribute el b)"

section \<open>extractors.py: text fields\<close>

definition name_selectors :: "string list" where
  \<open>name_selectors = [''h1[data-attrid="title"]'', ''h1.DUwDvf'', ''[data-attrid="title"] h1'',
     ''h1.x3AX1-LfntMc-header-title-title'', ''.x3AX1-LfntMc-header-title h1'', ''h1'',
     ''.qrShPb h1'', ''.SPZz6b h1'']\<close>

definition address_selectors :: "string list" where
  \<open>address_selectors = [''[data-item-id="address"] .Io6YTe'', ''.Io6YTe[data-value="Address"]'',
     ''button[data-item-id="address"]'', ''[data-attrid="kc:/location/location:address"]'',
     ''.rogA2c .Io6YTe'', ''[data-item-id="address"] span'',
     ''button[data-item-id="address"] .Io6YTe'']\<close>

definition phone_selectors :: "string list" where
  \<open>phone_selectors = [''[data-item-id="phone:tel:"] .Io6YTe'', ''button[data-item-id^="phone"]'',
     ''[data-value*="phone"] .Io6YTe'', ''a[href^="tel:"]'', ''[data-item-id*="phone"] span'',
     ''.rogA2c a[href^="tel:"]'']\<close>

definition rating_selectors :: "string list" where
  \<open>rating_selectors = [''.MW4etd'', ''.ceNzKf'', ''[jsaction*="pane.rating"]'',
     ''.fontDisplayLarge'', ''span.ceNzKf[aria-hidden="true"]'']\<close>

definition reviews_selectors :: "string list" where
  \<open>reviews_selectors = [''.UY7F9'', ''button[aria-label*="reviews"]'',
     ''[data-value="Reviews count"]'', ''.fontTitleSmall .UY7F9'', ''span.UY7F9'']\<close>

text \<open>
  The text of the first match of a selector; an exception, a missing element and a text
  that is None or empty all move on to the next selector.
\<close>

definition probe_raw_text :: "page \<Rightarrow> string \<Rightarrow> string option" where
  "probe_raw_text pg selector =
     (case first_match pg selector of
        Inl e \<Rightarrow> None
      | Inr None \<Rightarrow> None
      | Inr (Some el) \<Rightarrow>
          (case text_content el of
             Inl e \<Rightarrow> None
           | Inr None \<Rightarrow> None
           | Inr (Some txt) \<Rightarrow> if txt \<noteq> [] then Some txt else None))"

definition probe_text :: "page \<Rightarrow> string \<Rightarrow> string option" where
  "probe_text pg selector =
     (case probe_raw_text pg selector of
        None \<Rightarrow> None
      | Some txt \<Rightarrow> if strip txt \<noteq> [] then Some (strip txt) else None)"

definition extract_name :: "page \<Rightarrow> string option" where
  "extract_name pg =
     (case first_some (probe_text pg) name_selectors of
        Some nm \<Rightarrow> Some nm
      | None \<Rightarrow> Some ''Unknown'')"

definition extract_address :: "page \<Rightarrow> string option" where
  "extract_address pg = first_some (probe_text pg) address_selectors"

definition extract_phone :: "page \<Rightarrow> string option" where
  "extract_phone pg = first_some (probe_text pg) phone_selectors"

definition rating_pattern :: "tok list" where
  "rating_pattern = [GroupOpen, Atom digit Plus, Atom (\<lambda>x. x = CHR ''.'') Opt,
     Atom digit Star, GroupClose]"

definition probe_rating :: "page \<Rightarrow> string \<Rightarrow> real option" where
  "probe_rating pg selector =
     (case probe_raw_text pg selector of
        None \<Rightarrow> None
      | Some rating_text \<Rightarrow>
          (case re_search rating_pattern (strip rating_text) of
             Some (pre, g # gs, rest) \<Rightarrow>
               (case py_float g of
                  Finite r \<Rightarrow> if 0 \<le> r \<and> r \<le> 5 then Some r else None
                | _ \<Rightarrow> None)
           | _ \<Rightarrow> None))"

definition extract_rating :: "page \<Rightarrow> real option" where
  "extract_rating pg = first_some (probe_rating pg) rating_selectors"

definition reviews_pattern :: "tok list" where
  "reviews_pattern = [GroupOpen, Atom digit Plus, GroupClose]"

definition probe_reviews :: "page \<Rightarrow> string \<Rightarrow> int option" where
  "probe_reviews pg selector =
     (case probe_raw_text pg selector of
        None \<Rightarrow> None
      | Some reviews_text \<Rightarrow>
          (case re_search reviews_pattern (remove_chars '','' reviews_text) of
             Some (pre, g # gs, rest) \<Rightarrow> Some (int (nat_of_digits g))
           | _ \<Rightarrow> None))"

definition extract_reviews_count :: "page \<Rightarrow> int option" where
  "extract_reviews_count pg = first_some (probe_reviews pg) reviews_selectors"

section \<open>extractors.py: the coordinate resolver\<close>

definition in_range :: "real \<Rightarrow> real \<Rightarrow> bool" where
  "in_range la lo = (- 90 \<le> la \<and> la \<le> 90 \<and> - 180 \<le> lo \<and> lo \<le> 180)"

text \<open>The float that the literal \<open>0.001\<close> denotes.\<close>

definition origin_epsilon :: real where
  "origin_epsilon = (case binary64 1 1000 of Some x \<Rightarrow> x | None \<Rightarrow> 0)"

definition in_range_not_origin :: "real \<Rightarrow> real \<Rightarrow> bool" where
  "in_range_not_origin la lo =
     (- 90 \<le> la \<and> la \<le> 90 \<and> - 180 \<le> lo \<and> lo \<le> 180 \<and>
      \<bar>la\<bar> > origin_epsilon \<and> \<bar>lo\<bar> > origin_epsilon)"

text \<open>
  \<open>latitude = float(lat); longitude = float(lng)\<close> followed by the test of the tier:
  the pair when the test holds, \<open>None\<close> when it does not, ValueError when a text is
  not a number.
\<close>

definition read_pair :: "(real \<Rightarrow> real \<Rightarrow> bool) \<Rightarrow> string \<Rightarrow> string \<Rightarrow> exn + (real \<times> real) option" where
  "read_pair ok lat lng =
     (case py_float lat of
        FloatError \<Rightarrow> Inl ValueError
      | NonFinite \<Rightarrow> (case py_float lng of FloatError \<Rightarrow> Inl ValueError | _ \<Rightarrow> Inr None)
      | Finite la \<Rightarrow>
          (case py_float lng of
             FloatError \<Rightarrow> Inl ValueError
           | NonFinite \<Rightarrow> Inr None
           | Finite lo \<Rightarrow> if ok la lo then Inr (Some (la, lo)) else Inr None))"

definition read_groups :: "(real \<Rightarrow> real \<Rightarrow> bool) \<Rightarrow> string list \<Rightarrow> exn + (real \<times> real) option" where
  "read_groups ok groups =
     (case groups of
        lat # lng # _ \<Rightarrow> read_pair ok lat lng
      | _ \<Rightarrow> Inl IndexError)"

definition url_patterns :: "tok list list" where
  "url_patterns =
     [lit ''/@'' @ number_group @ lit '','' @ number_group @ lit '','',
      lit ''/place/'' @ [Atom (\<lambda>x. x \<noteq> CHR ''/'') Plus] @ lit ''/@'' @ number_group
        @ lit '','' @ number_group,
      lit ''!3d'' @ number_group @ lit ''!4d'' @ number_group,
      lit ''center='' @ number_group @ lit '','' @ number_group]"

definition coord_patterns :: "tok list list" where
  \<open>coord_patterns =
     [lit ''null,[null,null,'' @ number_group @ lit '','' @ number_group @ lit '']'',
      lit ''['' @ number_group @ lit '','' @ number_group @ lit '']'',
      lit ''"lat":'' @ number_group @ lit '',"lng":'' @ number_group,
      lit ''"latitude":'' @ number_group @ lit '',"longitude":'' @ number_group,
      lit ''center'' @ [Atom dot Lazy] @ lit ''['' @ number_group @ lit '','' @ number_group
        @ lit '']'',
      lit ''position'' @ [Atom dot Lazy] @ number_group @ lit '','' @ number_group,
      lit ''coordinates'' @ [Atom dot Lazy] @ lit ''['' @ number_group @ lit '',''
        @ number_group @ lit '']'']\<close>

definition data_selectors :: "string list" where
  \<open>data_selectors = [''[data-lat][data-lng]'', ''[data-latitude][data-longitude]'',
     ''[data-coords]'', ''[jsaction*="coordinates"]'']\<close>

text \<open>Method 1: the address of the page against the URL patterns, in order.\<close>

fun url_tier :: "tok list list \<Rightarrow> string \<Rightarrow> exn + (real \<times> real) option" where
  "url_tier [] current_url = Inr None"
| "url_tier (pattern # rest) current_url =
     (case re_search pattern current_url of
        None \<Rightarrow> url_tier rest current_url
      | Some (pre, groups, post) \<Rightarrow>
          (case read_groups in_range groups of
             Inl e \<Rightarrow> Inl e
           | Inr (Some c) \<Rightarrow> Inr (Some c)
           | Inr None \<Rightarrow> url_tier rest current_url))"

text \<open>Method 2: every match of every pattern in the page source.\<close>

fun scan_matches :: "(real \<Rightarrow> real \<Rightarrow> bool) \<Rightarrow> string list list \<Rightarrow> exn + (real \<times> real) option" where
  "scan_matches ok [] = Inr None"
| "scan_matches ok (m # ms) =
     (case read_groups ok m of
        Inl e \<Rightarrow> Inl e
      | Inr (Some c) \<Rightarrow> Inr (Some c)
      | Inr None \<Rightarrow> scan_matches ok ms)"

fun content_scan :: "(real \<Rightarrow> real \<Rightarrow> bool) \<Rightarrow> tok list list \<Rightarrow> string \<Rightarrow> (real \<times> real) option" where
  "content_scan ok [] page_content = None"
| "content_scan ok (pattern # rest) page_content =
     (case scan_matches ok (map snd (finditer pattern page_content)) of
        Inr (Some c) \<Rightarrow> Some c
      | _ \<Rightarrow> content_scan ok rest page_content)"

definition content_tier :: "page \<Rightarrow> (real \<times> real) option" where
  "content_tier pg =
     (if \<not> waits pg then None
      else (case content pg of
              Inl e \<Rightarrow> None
            | Inr page_content \<Rightarrow> content_scan in_range_not_origin coord_patterns page_content))"

text \<open>Method 3: the data attributes of the first match of each selector.\<close>

fun attribute_tier :: "page \<Rightarrow> string list \<Rightarrow> exn + (real \<times> real) option" where
  "attribute_tier pg [] = Inr None"
| "attribute_tier pg (selector # rest) =
     (case first_match pg selector of
        Inl e \<Rightarrow> Inl e
      | Inr None \<Rightarrow> attribute_tier pg rest
      | Inr (Some el) \<Rightarrow>
          (case attribute_or el ''data-lat'' ''data-latitude'' of
             Inl e \<Rightarrow> Inl e
           | Inr lat \<Rightarrow>
               (case attribute_or el ''data-lng'' ''data-longitude'' of
                  Inl e \<Rightarrow> Inl e
                | Inr lng \<Rightarrow>
                    if truthy lat \<and> truthy lng then
                      (case read_pair in_range (the lat) (the lng) of
                         Inl e \<Rightarrow> Inl e
                       | Inr (Some c) \<Rightarrow> Inr (Some c)
                       | Inr None \<Rightarrow> attribute_tier pg rest)
                    else attribute_tier pg rest)))"

definition extract_coordinates :: "page \<Rightarrow> (real \<times> real) option" where
  "extract_coordinates pg =
     (case url_tier url_patterns (url pg) of
        Inr (Some c) \<Rightarrow> Some c
      | _ \<Rightarrow>
          (case content_tier pg of
             Some c \<Rightarrow> Some c
           | None \<Rightarrow>
               (case attribute_tier pg data_selectors of
                  Inr (Some c) \<Rightarrow> Some c
                | _ \<Rightarrow> None)))"

section \<open>extractors.py: the website\<close>

definition website_selectors :: "string list" where
  \<open>website_selectors = [''a[data-item-id="authority"]'', ''a[aria-label*="Website" i]'',
     ''a[data-value="Website"]'', ''button[data-item-id="authority"] a'',
     ''[data-item-id="authority"] a[href]'', ''a[href*="http"]:has-text("Website")'',
     ''a[jsaction*="website"]'', ''.rogA2c a[href^="http"]'',
     ''a[data-item-id="authority"] .Io6YTe'', ''.CsEnBe a[href^="http"]'']\<close>

definition info_buttons :: "string list" where
  \<open>info_buttons = [''button:has-text("Website")'', ''[aria-label*="website" i]'',
     ''button[data-value*="website" i]'', ''button:has-text("Visit website")'',
     ''.RcCsl button'']\<close>

definition http_link_selector :: string where
  \<open>http_link_selector = ''a[href^="http"]''\<close>

definition content_excludes :: "string list" where
  "content_excludes = [''google.com'', ''gstatic.com'', ''googleapis.com'', ''youtube.com'',
     ''facebook.com'']"

definition alnum_dash :: "char \<Rightarrow> bool" where
  "alnum_dash c = (ascii_alpha c \<or> digit c \<or> c = CHR ''-'')"

definition path_char :: "char \<Rightarrow> bool" where
  "path_char c = (\<not> whitespace c \<and> c \<notin> set [CHR 0x22, CHR 0x27, CHR ''<'', CHR ''>''])"

definition url_tail :: tok where
  "url_tail = OptSeq [(\<lambda>x. x = CHR ''/'', One), (path_char, Star)]"

definition content_url_patterns :: "tok list list" where
  "content_url_patterns =
     [lit ''http'' @ [Atom (\<lambda>x. x = CHR ''s'') Opt] @ lit ''://''
        @ [OptSeq (map (\<lambda>c. (\<lambda>x. x = c, One)) ''www.'')]
        @ [Atom alnum_dash Plus] @ lit ''.'' @ [Atom ascii_alpha One, Atom ascii_alpha Plus]
        @ [url_tail],
      lit ''www.'' @ [Atom alnum_dash Plus] @ lit ''.''
        @ [Atom ascii_alpha One, Atom ascii_alpha Plus] @ [url_tail]]"

text \<open>
  Strategy 1, one selector: the link of the element, cleaned; failing that, the text of
  the element when it looks like a URL.
\<close>

definition probe_website :: "pylib \<Rightarrow> page \<Rightarrow> string \<Rightarrow> string option" where
  "probe_website L pg selector =
     (case first_match pg selector of
        Inl e \<Rightarrow> None
      | Inr None \<Rightarrow> None
      | Inr (Some el) \<Rightarrow>
          (case get_attribute el ''href'' of
             Inl e \<Rightarrow> None
           | Inr href \<Rightarrow>
               let cleaned_url = (if truthy href \<and> startswith (the href) ''http''
                                  then clean_website_url L (the href) else None)
               in if truthy cleaned_url then cleaned_url
                  else
                    (case text_content el of
                       Inl e \<Rightarrow> None
                     | Inr txt \<Rightarrow>
                         if truthy txt \<and> (py_in ''http'' (the txt) \<or> py_in ''www.'' (the txt)) then
                           let u = strip (the txt);
                               u = (if \<not> startswith u ''http''
                                    then ''https://'' @ dropWhile (\<lambda>c. c \<in> set ''www.'') u
                                    else u);
                               cleaned_url = clean_website_url L u
                           in if truthy cleaned_url then cleaned_url else None
                         else None)))"

text \<open>
  Strategy 2: click the first button that is present and read the first http link of the
  page it reveals. The loop ends after the first click that does not raise.
\<close>

fun website_by_click :: "pylib \<Rightarrow> page \<Rightarrow> string list \<Rightarrow> string option \<times> page" where
  "website_by_click L pg [] = (None, pg)"
| "website_by_click L pg (selector # rest) =
     (case first_match pg selector of
        Inl e \<Rightarrow> website_by_click L pg rest
      | Inr None \<Rightarrow> website_by_click L pg rest
      | Inr (Some button) \<Rightarrow>
          (case click pg selector of
             None \<Rightarrow> website_by_click L pg rest
           | Some pg' \<Rightarrow>
               if \<not> waits pg' then website_by_click L pg' rest
               else
                 (case first_match pg' http_link_selector of
                    Inl e \<Rightarrow> website_by_click L pg' rest
                  | Inr None \<Rightarrow> (None, pg')
                  | Inr (Some revealed_link) \<Rightarrow>
                      (case get_attribute revealed_link ''href'' of
                         Inl e \<Rightarrow> website_by_click L pg' rest
                       | Inr href \<Rightarrow>
                           if truthy href \<and> truthy (clean_website_url L (the href))
                           then (clean_website_url L (the href), pg')
                           else (None, pg')))))"

text \<open>Strategy 3: the URLs in the page source that name none of the excluded hosts.\<close>

definition probe_content_url :: "pylib \<Rightarrow> string \<Rightarrow> string option" where
  "probe_content_url L m =
     (if \<not> list_ex (\<lambda>exclude. py_in exclude (lower m)) content_excludes then
        let cleaned_url = clean_website_url L (if \<not> startswith m ''http'' then ''https://'' @ m else m)
        in if truthy cleaned_url then cleaned_url else None
      else None)"

definition website_from_content :: "pylib \<Rightarrow> page \<Rightarrow> string option" where
  "website_from_content L pg =
     (case content pg of
        Inl e \<Rightarrow> None
      | Inr page_content \<Rightarrow>
          first_some (\<lambda>pattern. first_some (probe_content_url L)
                                   (map fst (finditer pattern page_content)))
            content_url_patterns)"

definition extract_website :: "pylib \<Rightarrow> page \<Rightarrow> string option \<times> page" where
  "extract_website L pg =
     (case first_some (probe_website L pg) website_selectors of
        Some w \<Rightarrow> (Some w, pg)
      | None \<Rightarrow>
          (case website_by_click L pg info_buttons of
             (Some w, pg') \<Rightarrow> (Some w, pg')
           | (None, pg') \<Rightarrow> (website_from_content L pg', pg')))"

section \<open>extractors.py: the image\<close>

definition image_selectors :: "string list" where
  \<open>image_selectors = [''img[data-src*="googleusercontent.com"]'',
     ''img[src*="googleusercontent.com"]'', ''button img[src*="googleusercontent.com"]'',
     ''.ZKCDEc img'', ''.UCw5gc img'', ''[data-photo-index="0"] img'', ''img[alt*="Photo"]'',
     ''.gallery img:first-child'', ''img[src*="streetviewpixels"]'', ''img[src*="places"]'',
     ''[jsaction*="photo"] img:first-child'']\<close>

definition fallback_selectors :: "string list" where
  \<open>fallback_selectors = [''img[src*="http"]'', ''img[data-src*="http"]'']\<close>

text \<open>The precheck and the cleaning of one candidate image address.\<close>

definition accept_image :: "(string \<Rightarrow> bool) \<Rightarrow> (string \<Rightarrow> string option) \<Rightarrow> string option \<Rightarrow> string option" where
  "accept_image valid clean img_url =
     (if truthy img_url \<and> valid (the img_url) \<and> truthy (clean (the img_url))
      then clean (the img_url) else None)"

definition probe_image :: "(string \<Rightarrow> bool) \<Rightarrow> (string \<Rightarrow> string option) \<Rightarrow> page \<Rightarrow> string \<Rightarrow> string option" where
  "probe_image valid clean pg selector =
     (case first_match pg selector of
        Inl e \<Rightarrow> None
      | Inr None \<Rightarrow> None
      | Inr (Some el) \<Rightarrow>
          (case attribute_or el ''data-src'' ''src'' of
             Inl e \<Rightarrow> None
           | Inr img_url \<Rightarrow> accept_image valid clean img_url))"

text \<open>The fallback: the first five elements of each selector; an exception ends it.\<close>

fun scan_images :: "(string \<Rightarrow> bool) \<Rightarrow> (string \<Rightarrow> string option) \<Rightarrow> element list \<Rightarrow> exn + string option" where
  "scan_images valid clean [] = Inr None"
| "scan_images valid clean (el # els) =
     (case attribute_or el ''data-src'' ''src'' of
        Inl e \<Rightarrow> Inl e
      | Inr img_url \<Rightarrow>
          (case accept_image valid clean img_url of
             Some u \<Rightarrow> Inr (Some u)
           | None \<Rightarrow> scan_images valid clean els))"

fun image_fallback :: "page \<Rightarrow> string list \<Rightarrow> exn + string option" where
  "image_fallback pg [] = Inr None"
| "image_fallback pg (selector # rest) =
     (case locator pg selector of
        Inl e \<Rightarrow> Inl e
      | Inr elements \<Rightarrow>
          (case scan_images is_valid_image_url clean_image_url (take 5 elements) of
             Inl e \<Rightarrow> Inl e
           | Inr (Some u) \<Rightarrow> Inr (Some u)
           | Inr None \<Rightarrow> image_fallback pg rest))"

definition extract_image :: "page \<Rightarrow> string option" where
  "extract_image pg =
     (case first_some (probe_image is_valid_image_url clean_image_url pg) image_selectors of
        Some u \<Rightarrow> Some u
      | None \<Rightarrow>
          (case image_fallback pg fallback_selectors of
             Inr (Some u) \<Rightarrow> Some u
           | _ \<Rightarrow> None))"

section \<open>extractors.py: extract_place\<close>

definition extract_place :: "pylib \<Rightarrow> page \<Rightarrow> Place \<times> page" where
  "extract_place L pg =
     (let (w, pg') = extract_website L pg;
          place = new_Place\<lparr>name := extract_name pg,
                    address := extract_address pg,
                    phone := extract_phone pg,
                    rating := extract_rating pg,
                    reviews_count := extract_reviews_count pg,
                    website := w,
                    image_url := extract_image pg'\<rparr>
      in (case extract_coordinates pg' of
            Some (la, lo) \<Rightarrow> (place\<lparr>latitude := Some la, longitude := Some lo\<rparr>, pg')
          | None \<Rightarrow> (place, pg')))"

section \<open>core.py: the second pass\<close>

definition extract_coordinates_from_url :: "string \<Rightarrow> (real \<times> real) option" where
  "extract_coordinates_from_url current_url =
     (case re_search (lit ''/@'' @ number_group @ lit '','' @ number_group @ lit '','') current_url of
        None \<Rightarrow> None
      | Some (pre, groups, post) \<Rightarrow>
          (case read_groups in_range groups of
             Inr (Some c) \<Rightarrow> Some c
           | _ \<Rightarrow> None))"

definition advanced_patterns :: "tok list list" where
  \<open>advanced_patterns =
     [lit ''null,[null,null,'' @ number_group @ lit '','' @ number_group @ lit '']'',
      lit ''['' @ number_group @ lit '','' @ number_group @ lit '']'',
      lit ''"lat":'' @ number_group @ lit '',"lng":'' @ number_group,
      lit ''latitude'' @ [Atom dot Lazy] @ number_group @ [Atom dot Lazy] @ lit ''longitude''
        @ [Atom dot Lazy] @ number_group,
      lit ''center'' @ [Atom dot Lazy] @ lit ''['' @ number_group @ lit '','' @ number_group
        @ lit '']'']\<close>

definition extract_coordinates_advanced :: "page \<Rightarrow> (real \<times> real) option" where
  "extract_coordinates_advanced pg =
     (case content pg of
        Inl e \<Rightarrow> None
      | Inr page_content \<Rightarrow> content_scan in_range advanced_patterns page_content)"

definition advanced_website_selectors :: "string list" where
  \<open>advanced_website_selectors = [''a[data-item-id="authority"]'', ''a[aria-label*="Website"]'',
     ''a[data-value="Website"]'', ''button[data-item-id="authority"]'',
     ''[data-item-id="authority"] a'', ''a[href*="http"]:has-text("Website")'',
     ''a[jsaction*="website"]'', ''.rogA2c a[href^="http"]'']\<close>

definition advanced_info_buttons :: "string list" where
  \<open>advanced_info_buttons = [''button:has-text("Website")'', ''[aria-label*="website" i]'',
     ''button[data-value*="website" i]'']\<close>

text \<open>
  Strategy 1 of \<open>extract_website_advanced\<close>, one selector: the link of the element, or
  the target of a redirect wrapper; no other cleaning.
\<close>

definition probe_website_advanced :: "pylib \<Rightarrow> page \<Rightarrow> string \<Rightarrow> string option" where
  "probe_website_advanced L pg selector =
     (case first_match pg selector of
        Inl e \<Rightarrow> None
      | Inr None \<Rightarrow> None
      | Inr (Some el) \<Rightarrow>
          (case get_attribute el ''href'' of
             Inl e \<Rightarrow> None
           | Inr href \<Rightarrow>
               if truthy href \<and> startswith (the href) ''http'' then
                 if py_in ''google.com/url?q='' (the href) then
                   (case urlparse L (the href) of
                      Inl e \<Rightarrow> None
                    | Inr r \<Rightarrow>
                        (case parse_qs L (query r) ''q'' of
                           [] \<Rightarrow> href
                         | v # _ \<Rightarrow> Some v))
                 else href
               else None))"

fun advanced_website_by_click :: "page \<Rightarrow> string list \<Rightarrow> string option \<times> page" where
  "advanced_website_by_click pg [] = (None, pg)"
| "advanced_website_by_click pg (selector # rest) =
     (case first_match pg selector of
        Inl e \<Rightarrow> advanced_website_by_click pg rest
      | Inr None \<Rightarrow> advanced_website_by_click pg rest
      | Inr (Some button) \<Rightarrow>
          (case click pg selector of
             None \<Rightarrow> advanced_website_by_click pg rest
           | Some pg' \<Rightarrow>
               if \<not> waits pg' then advanced_website_by_click pg' rest
               else
                 (case first_match pg' http_link_selector of
                    Inl e \<Rightarrow> advanced_website_by_click pg' rest
                  | Inr None \<Rightarrow> (None, pg')
                  | Inr (Some link) \<Rightarrow>
                      (case get_attribute link ''href'' of
                         Inl e \<Rightarrow> advanced_website_by_click pg' rest
                       | Inr href \<Rightarrow> if truthy href then (href, pg') else (None, pg')))))"

definition extract_website_advanced :: "pylib \<Rightarrow> page \<Rightarrow> string option \<times> page" where
  "extract_website_advanced L pg =
     (case first_some (probe_website_advanced L pg) advanced_website_selectors of
        Some w \<Rightarrow> (Some w, pg)
      | None \<Rightarrow> advanced_website_by_click pg advanced_info_buttons)"

definition advanced_image_selectors :: "string list" where
  \<open>advanced_image_selectors = [''img[data-src*="googleusercontent.com"]'',
     ''img[src*="googleusercontent.com"]'', ''button img[src*="googleusercontent.com"]'',
     ''.ZKCDEc img'', ''.UCw5gc img'', ''[data-photo-index="0"] img'', ''img[alt*="Photo"]'',
     ''.gallery img'', ''img[src*="streetviewpixels"]'', ''img[src*="places"]'',
     ''[jsaction*="photo"] img'']\<close>

definition gallery_selectors :: "string list" where
  \<open>gallery_selectors = [''.section-image img'', ''.photo-container img'',
     ''[data-value*="photo"] img'', ''.RZ66Rb img'']\<close>

definition photo_buttons :: "string list" where
  \<open>photo_buttons = [''button:has-text("Photo")'', ''[aria-label*="photo" i]'',
     ''button[data-value*="photo" i]'', ''[jsaction*="photo"]'']\<close>

definition cdn_image_selector :: string where
  \<open>cdn_image_selector = ''img[src*="googleusercontent.com"]''\<close>

text \<open>Strategy 2 of \<open>extract_image_advanced\<close>: the first image of each gallery.\<close>

fun gallery_images :: "page \<Rightarrow> string list \<Rightarrow> exn + string option" where
  "gallery_images pg [] = Inr None"
| "gallery_images pg (selector # rest) =
     (case locator pg selector of
        Inl e \<Rightarrow> Inl e
      | Inr [] \<Rightarrow> gallery_images pg rest
      | Inr (first_img # _) \<Rightarrow>
          (case attribute_or first_img ''data-src'' ''src'' of
             Inl e \<Rightarrow> Inl e
           | Inr img_url \<Rightarrow>
               (case accept_image GoogleMapsScraper_is_valid_image_url
                       GoogleMapsScraper_clean_image_url img_url of
                  Some u \<Rightarrow> Inr (Some u)
                | None \<Rightarrow> gallery_images pg rest)))"

text \<open>
  Strategy 3: click the first photo button that is present and read the first CDN image
  of the page it reveals; an exception ends the strategy.
\<close>

fun image_by_click :: "page \<Rightarrow> string list \<Rightarrow> string option \<times> page" where
  "image_by_click pg [] = (None, pg)"
| "image_by_click pg (selector # rest) =
     (case first_match pg selector of
        Inl e \<Rightarrow> (None, pg)
      | Inr None \<Rightarrow> image_by_click pg rest
      | Inr (Some button) \<Rightarrow>
          (case click pg selector of
             None \<Rightarrow> (None, pg)
           | Some pg' \<Rightarrow>
               if \<not> waits pg' then (None, pg')
               else
                 (case first_match pg' cdn_image_selector of
                    Inl e \<Rightarrow> (None, pg')
                  | Inr None \<Rightarrow> (None, pg')
                  | Inr (Some revealed_img) \<Rightarrow>
                      (case get_attribute revealed_img ''src'' of
                         Inl e \<Rightarrow> (None, pg')
                       | Inr img_url \<Rightarrow>
                           (accept_image GoogleMapsScraper_is_valid_image_url
                              GoogleMapsScraper_clean_image_url img_url, pg')))))"

definition extract_image_advanced :: "page \<Rightarrow> string option \<times> page" where
  "extract_image_advanced pg =
     (case first_some (probe_image GoogleMapsScraper_is_valid_image_url
                         GoogleMapsScraper_clean_image_url pg) advanced_image_selectors of
        Some u \<Rightarrow> (Some u, pg)
      | None \<Rightarrow>
          (case gallery_images pg gallery_selectors of
             Inr (Some u) \<Rightarrow> (Some u, pg)
           | _ \<Rightarrow> image_by_click pg photo_buttons))"

section \<open>core.py: the browser session of one run\<close>

datatype sidebar_outcome = SidebarAbsent | SidebarRaised | SidebarScrolled

text \<open>A result link of the list: whether each click attempt succeeds, and the detail view
  a successful click opens.\<close>

record candidate =
  click_ok :: "nat \<Rightarrow> bool"
  detail :: page

text \<open>
  What the browser answers during one run: whether each call of the navigation and search
  phase returns (false: it raises), the outcome of the k-th scroll (counted from 0) and
  of the count that follows it, the outcome of the sidebar recovery tried after the k-th
  scroll, the final count and listing, and whether closing the page and the browser
  return.
\<close>

record browser_env =
  start_ok :: bool
  new_page_ok :: bool
  goto_ok :: bool
  fill_ok :: bool
  press_ok :: bool
  results_found :: bool
  wheel_ok :: "nat \<Rightarrow> bool"
  count_at :: "nat \<Rightarrow> nat option"
  sidebar_at :: "nat \<Rightarrow> sidebar_outcome"
  final_count :: "nat option"
  all_listings :: "candidate list option"
  page_close_ok :: bool
  close_ok :: bool

section \<open>core.py: the scroll loop of scrape_places\<close>

datatype scroll_event = Scroll | Growth | NoGrowth nat | Corrective sidebar_outcome

record pager =
  previously_counted :: nat
  scroll_attempts :: nat
  no_new_results_count :: nat
  events :: "scroll_event list"

datatype pager_result = Raised pager | Finished pager

definition max_scroll_attempts :: nat where
  "max_scroll_attempts = 30"

function scroll_loop :: "browser_env \<Rightarrow> int \<Rightarrow> pager \<Rightarrow> pager_result" where
  "scroll_loop env tot st =
     (if scroll_attempts st < max_scroll_attempts then
        (if \<not> wheel_ok env (scroll_attempts st) then Raised st
         else
           let st1 = st\<lparr>events := events st @ [Scroll]\<rparr> in
           (case count_at env (scroll_attempts st) of
              None \<Rightarrow> Raised st1
            | Some found \<Rightarrow>
                if int found \<ge> tot then Finished st1
                else if found = previously_counted st then
                  let n = no_new_results_count st + 1;
                      st2 = st1\<lparr>no_new_results_count := n,
                                events := events st1 @ [NoGrowth n]\<rparr>;
                      st3 = (if n = 2
                             then st2\<lparr>events := events st2
                                        @ [Corrective (sidebar_at env (scroll_attempts st))]\<rparr>
                             else st2)
                  in if n \<ge> 5 then Finished st3
                     else scroll_loop env tot
                            (st3\<lparr>previously_counted := found,
                                 scroll_attempts := scroll_attempts st + 1\<rparr>)
                else
                  scroll_loop env tot
                    (st1\<lparr>no_new_results_count := 0, events := events st1 @ [Growth],
                         previously_counted := found,
                         scroll_attempts := scroll_attempts st + 1\<rparr>)))
      else Finished st)"
  by pat_completeness auto
termination
  by (relation "measure (\<lambda>(env, tot, st). max_scroll_attempts - scroll_attempts st)")
     (auto simp: Let_def)

declare scroll_loop.simps [simp del]

definition initial_pager :: pager where
  "initial_pager = \<lparr>previously_counted = 0, scroll_attempts = 0,
     no_new_results_count = 0, events = []\<rparr>"

definition run_pager :: "browser_env \<Rightarrow> int \<Rightarrow> pager_result" where
  "run_pager env tot = scroll_loop env tot initial_pager"

fun pager_of :: "pager_result \<Rightarrow> pager" where
  "pager_of (Raised st) = st"
| "pager_of (Finished st) = st"

text \<open>
  What a run of the loop did: the scrolls of the result list, the times the corrective
  branch was taken, and the times that branch scrolled the sidebar.
\<close>

definition scrolls :: "pager_result \<Rightarrow> nat" where
  "scrolls r = count_list (events (pager_of r)) Scroll"

fun is_corrective :: "scroll_event \<Rightarrow> bool" where
  "is_corrective (Corrective outcome) = True"
| "is_corrective event = False"

definition corrective_steps :: "pager_result \<Rightarrow> nat" where
  "corrective_steps r = length (filter is_corrective (events (pager_of r)))"

definition sidebar_scrolls :: "pager_result \<Rightarrow> nat" where
  "sidebar_scrolls r = count_list (events (pager_of r)) (Corrective SidebarScrolled)"

section \<open>core.py: the candidate loop of scrape_places\<close>

definition max_click_attempts :: nat where
  "max_click_attempts = 3"

definition name_sentinels :: "string list" where
  "name_sentinels = ['''', ''Unknown'', ''Failed to extract'']"

definition set_coordinates :: "(real \<times> real) option \<Rightarrow> Place \<Rightarrow> Place" where
  "set_coordinates coordinates place =
     (case coordinates of
        Some (la, lo) \<Rightarrow> place\<lparr>latitude := Some la, longitude := Some lo\<rparr>
      | None \<Rightarrow> place)"

text \<open>
  The extraction steps of the loop body, on the detail view of a listing that was clicked:
  the coordinates of the address first, then \<open>extract_place\<close>, then the second pass for
  what is still missing.
\<close>

definition visit_details :: "pylib \<Rightarrow> page \<Rightarrow> Place" where
  "visit_details L pg0 =
     (let coordinates = extract_coordinates_from_url (url pg0);
          (place, pg) = extract_place L pg0;
          place = set_coordinates coordinates place;
          place = (if \<not> has_coordinates place
                   then set_coordinates (extract_coordinates_advanced pg) place
                   else place);
          (place, pg) = (if \<not> truthy (website place) then
                           (case extract_website_advanced L pg of
                              (w, pg') \<Rightarrow> (if truthy w then place\<lparr>website := w\<rparr> else place, pg'))
                         else (place, pg));
          (place, pg) = (if \<not> truthy (image_url place) then
                           (case extract_image_advanced pg of
                              (u, pg') \<Rightarrow> (if truthy u then place\<lparr>image_url := u\<rparr> else place, pg'))
                         else (place, pg))
      in place)"

text \<open>
  The body of the loop for one listing: the list of accepted places after it. A listing
  that cannot be clicked, a wait that raises and an invalid name leave the list as it is.
\<close>

definition process_candidate :: "pylib \<Rightarrow> candidate \<Rightarrow> Place list \<Rightarrow> Place list" where
  "process_candidate L listing places =
     (if \<not> list_ex (click_ok listing) [0..<max_click_attempts] then places
      else if \<not> waits (detail listing) then places
      else
        let place = visit_details L (detail listing)
        in if \<not> truthy (name place) \<or> the (name place) \<in> set name_sentinels then places
           else places @ [place])"

fun process_listings :: "pylib \<Rightarrow> int \<Rightarrow> candidate list \<Rightarrow> Place list \<Rightarrow> Place list" where
  "process_listings L tot [] places = places"
| "process_listings L tot (listing # rest) places =
     (if int (length places) \<ge> tot then places
      else process_listings L tot rest (process_candidate L listing places))"

section \<open>core.py: scrape_places\<close>

text \<open>
  \<open>int(total * 1.5)\<close>: the target is converted to a float, the product is rounded to a
  float and cut towards zero. \<open>None\<close> is the OverflowError of a target too large for a
  float, or of a product that is infinite.
\<close>

definition buffered :: "int \<Rightarrow> int option" where
  "buffered tot =
     (case binary64_frac (nat \<bar>tot\<bar>) 1 of
        None \<Rightarrow> None
      | Some (a, b) \<Rightarrow>
          (case binary64_frac (3 * a) (2 * b) of
             None \<Rightarrow> None
           | Some (c, d) \<Rightarrow> Some (sgn tot * int (c div d))))"

text \<open>The slice \<open>xs[:k]\<close>; a negative \<open>k\<close> counts from the end.\<close>

definition py_take :: "int \<Rightarrow> 'a list \<Rightarrow> 'a list" where
  "py_take k xs = (if 0 \<le> k then take (nat k) xs else take (length xs - nat (- k)) xs)"

text \<open>
  The statements run with the page open: the exception that leaves them, if any, and the
  accepted places at that moment. A wait for the results that times out returns early.
\<close>

definition with_page :: "pylib \<Rightarrow> browser_env \<Rightarrow> int \<Rightarrow> exn option \<times> Place list" where
  "with_page L env tot =
     (if \<not> goto_ok env then (Some BrowserError, [])
      else if \<not> fill_ok env then (Some BrowserError, [])
      else if \<not> press_ok env then (Some BrowserError, [])
      else if \<not> results_found env then (None, [])
      else
        (case run_pager env tot of
           Raised st \<Rightarrow> (Some BrowserError, [])
         | Finished st \<Rightarrow>
             (case buffered tot of
                None \<Rightarrow> (Some OverflowError, [])
              | Some target_raw \<Rightarrow>
                  (case final_count env of
                     None \<Rightarrow> (Some BrowserError, [])
                   | Some n \<Rightarrow>
                       (case all_listings env of
                          None \<Rightarrow> (Some BrowserError, [])
                        | Some raw_listings \<Rightarrow>
                            (None, process_listings L tot
                                     (py_take (min target_raw (int n)) raw_listings) []))))))"

text \<open>The try block: start the browser, open a page, run, close the page.\<close>

definition try_block :: "pylib \<Rightarrow> browser_env \<Rightarrow> int \<Rightarrow> exn option \<times> Place list" where
  "try_block L env tot =
     (if \<not> start_ok env then (Some BrowserError, [])
      else if \<not> new_page_ok env then (Some BrowserError, [])
      else
        (case with_page L env tot of
           (raised, places) \<Rightarrow>
             if \<not> page_close_ok env then (Some BrowserError, places) else (raised, places)))"

text \<open>
  \<open>scrape_places\<close>: an exception of the try block is caught and logged; the browser is
  closed in the \<open>finally\<close> clause, outside the handler; then the places are returned.
\<close>

definition scrape_places :: "pylib \<Rightarrow> browser_env \<Rightarrow> int \<Rightarrow> exn + Place list" where
  "scrape_places L env tot =
     (case try_block L env tot of
        (raised, places) \<Rightarrow> if \<not> close_ok env then Inl BrowserError else Inr places)"

section \<open>Example inputs\<close>

definition empty_page :: page where
  "empty_page = Page [] (Inr []) (\<lambda>selector. Inr []) True (\<lambda>selector. None)"

definition stalled_env :: browser_env where
  "stalled_env = \<lparr>start_ok = True, new_page_ok = True, goto_ok = True, fill_ok = True,
     press_ok = True, results_found = True, wheel_ok = (\<lambda>k. True),
     count_at = (\<lambda>k. Some 3), sidebar_at = (\<lambda>k. SidebarScrolled),
     final_count = Some 3, all_listings = Some [], page_close_ok = True, close_ok = True\<rparr>"

definition bare_env :: browser_env where
  "bare_env = stalled_env\<lparr>sidebar_at := (\<lambda>k. SidebarAbsent)\<rparr>"

definition shrinking_env :: browser_env where
  "shrinking_env = stalled_env\<lparr>count_at := (\<lambda>k. if k = 0 then Some 3 else Some 2)\<rparr>"

definition origin_url_page :: page where
  "origin_url_page = Page ''https://www.google.com/maps/place/Null+Island/@0,0,15z''
     (Inr []) (\<lambda>selector. Inr []) True (\<lambda>selector. None)"

definition origin_marker :: element where
  "origin_marker = \<lparr>text_content = Inr None,
     get_attribute = (\<lambda>a. if a = ''data-lat'' \<or> a = ''data-lng'' then Inr (Some ''0'') else Inr None)\<rparr>"

definition origin_attribute_page :: page where
  "origin_attribute_page = Page ''https://www.google.com/maps/search/sod+farms''
     (Inr []) (\<lambda>selector. if selector = ''[data-lat][data-lng]'' then Inr [origin_marker] else Inr [])
     True (\<lambda>selector. None)"

definition geo_marker :: element where
  "geo_marker = \<lparr>text_content = Inr None,
     get_attribute = (\<lambda>a. if a = ''data-lat'' then Inr (Some ''37.422'')
                           else if a = ''data-lng'' then Inr (Some ''-122.084'') else Inr None)\<rparr>"

definition geo_page :: page where
  \<open>geo_page = Page ''https://www.google.com/maps/place/Green+Acres/@37.422,-122.084,15z''
     (Inr ''{"lat":37.422,"lng":-122.084}'')
     (\<lambda>selector. if selector = ''[data-lat][data-lng]'' then Inr [geo_marker] else Inr [])
     True (\<lambda>selector. None)\<close>

definition farm_heading :: element where
  "farm_heading = \<lparr>text_content = Inr (Some '' Green Acres Sod Farm ''),
     get_attribute = (\<lambda>a. Inr None)\<rparr>"

definition farm_link :: element where
  "farm_link = \<lparr>text_content = Inr (Some ''Website''),
     get_attribute = (\<lambda>a. if a = ''href''
        then Inr (Some ''https://www.google.com/url?q=https://greenacres.example/&sa=U'')
        else Inr None)\<rparr>"

definition farm_page :: page where
  \<open>farm_page = Page ''https://www.google.com/maps/place/Green+Acres/@37.422,-122.084,15z''
     (Inr [])
     (\<lambda>selector. if selector = ''h1'' then Inr [farm_heading]
                 else if selector = ''a[data-item-id="authority"]'' then Inr [farm_link]
                 else Inr [])
     True (\<lambda>selector. None)\<close>

definition farm_listing :: candidate where
  "farm_listing = \<lparr>click_ok = (\<lambda>k. k = 1), detail = farm_page\<rparr>"

definition blank_listing :: candidate where
  "blank_listing = \<lparr>click_ok = (\<lambda>k. True), detail = empty_page\<rparr>"

text \<open>The floats nearest to 37.422 and to -122.084.\<close>

definition farm_latitude :: real where
  "farm_latitude = 1316669572308271 / 35184372088832"

definition farm_longitude :: real where
  "farm_longitude = - (2147724441046483 / 17592186044416)"

definition farm_record :: Place where
  "farm_record = new_Place\<lparr>name := Some ''Green Acres Sod Farm'',
     website := Some ''https://greenacres.example/'',
     latitude := Some farm_latitude, longitude := Some farm_longitude\<rparr>"

definition farm_env :: browser_env where
  "farm_env = \<lparr>start_ok = True, new_page_ok = True, goto_ok = True, fill_ok = True,
     press_ok = True, results_found = True, wheel_ok = (\<lambda>k. True),
     count_at = (\<lambda>k. Some 3), sidebar_at = (\<lambda>k. SidebarScrolled),
     final_count = Some 3, all_listings = Some [farm_listing, blank_listing, farm_listing],
     page_close_ok = True, close_ok = True\<rparr>"

definition timeout_env :: browser_env where
  "timeout_env = farm_env\<lparr>results_found := False\<rparr>"

definition page_close_fails_env :: browser_env where
  "page_close_fails_env = farm_env\<lparr>page_close_ok := False\<rparr>"

definition close_fails_env :: browser_env where
  "close_fails_env = timeout_env\<lparr>close_ok := False\<rparr>"

definition search_link :: element where
  "search_link = \<lparr>text_content = Inr (Some ''Website''),
     get_attribute = (\<lambda>a. if a = ''href''
        then Inr (Some ''https://www.google.com/search?q=Green+Acres+Sod+Farm'')
        else Inr None)\<rparr>"

definition search_page :: page where
  \<open>search_page = Page ''https://www.google.com/maps/place/Green+Acres/@37.422,-122.084,15z''
     (Inr ''<a data-item-id="authority" href="https://www.google.com/search?q=Green+Acres+Sod+Farm">'')
     (\<lambda>selector. if selector = ''h1'' then Inr [farm_heading]
                 else if selector = ''a[data-item-id="authority"]'' then Inr [search_link]
                 else Inr [])
     True (\<lambda>selector. None)\<close>

definition search_listing :: candidate where
  "search_listing = \<lparr>click_ok = (\<lambda>k. True), detail = search_page\<rparr>"

definition search_record :: Place where
  "search_record = farm_record\<lparr>website := Some ''https://www.google.com/search?q=Green+Acres+Sod+Farm''\<rparr>"

definition search_env :: browser_env where
  "search_env = farm_env\<lparr>count_at := (\<lambda>k. Some 1), final_count := Some 1,
     all_listings := Some [search_listing]\<rparr>"

section \<open>Properties of the Place record\<close>

text \<open>
  C1 (as amended). \<open>Place.has_coordinates\<close> holds if and only if both latitude and
  longitude are set, the latitude is in [-90, 90] and the longitude is in [-180, 180].
  There is no test for the origin: the pair (0, 0) is in range and counts as coordinates.
\<close>

theorem has_coordinates_iff_in_range:
  "has_coordinates p \<longleftrightarrow>
     (\<exists>la lo. latitude p = Some la \<and> longitude p = Some lo \<and>
        - 90 \<le> la \<and> la \<le> 90 \<and> - 180 \<le> lo \<and> lo \<le> 180)"
  by (auto simp: has_coordinates_def split: option.splits)

theorem has_coordinates_iff_in_range_witness:
  "has_coordinates farm_place"
  using has_coordinates_iff_in_range [of farm_place]
  by (simp add: farm_place_def new_Place_def has_coordinates_def)

text \<open>
  The claim as stated fails: a record whose coordinates are exactly (0, 0) has coordinates
  according to \<open>has_coordinates\<close>.
\<close>

theorem has_coordinates_origin_counterexample:
  "latitude origin_place = Some 0 \<and> longitude origin_place = Some 0 \<and>
   has_coordinates origin_place"
  by (simp add: has_coordinates_def origin_place_def new_Place_def)

section \<open>Properties of the image URL precheck\<close>

lemma is_valid_image_url_only_if:
  "is_valid_image_url u \<Longrightarrow>
     url_scheme_ok u \<and>
     (\<exists>i \<in> set valid_indicators. py_in i (lower u)) \<and>
     (\<forall>i \<in> set invalid_indicators. \<not> py_in i (lower u))"
  by (auto simp: is_valid_image_url_def Let_def list_ex_iff split: if_splits)

lemma GoogleMapsScraper_is_valid_image_url_only_if:
  "GoogleMapsScraper_is_valid_image_url u \<Longrightarrow>
     url_scheme_ok u \<and> (\<exists>i \<in> set valid_indicators. py_in i (lower u))"
  by (auto simp: GoogleMapsScraper_is_valid_image_url_def list_ex_iff split: if_splits)

text \<open>
  C4. The precheck of the advanced pass has no denylist: it accepts a URL of the image
  CDN that contains \<open>avatar\<close>, which the precheck of the primary pass refuses.
\<close>

theorem advanced_precheck_accepts_avatar:
  "GoogleMapsScraper_is_valid_image_url avatar_url \<and>
   py_in ''avatar'' (lower avatar_url) \<and>
   \<not> is_valid_image_url avatar_url"
  by (simp add: GoogleMapsScraper_is_valid_image_url_def is_valid_image_url_def
      avatar_url_def url_scheme_ok_def startswith_def lower_def lower_char_def
      valid_indicators_def invalid_indicators_def Let_def)

section \<open>Properties of the image URL cleaning\<close>

text \<open>
  The pattern \<open>=s\d+\<close> is found in a text exactly when the text contains \<open>=s\<close>
  followed by a digit.
\<close>

lemma rmatch_star_last: "rmatch [Atom p Star] s st \<noteq> None"
  by (induction s arbitrary: st) (auto split: option.splits)

lemma rmatch_s_param:
  "rmatch s_param_pattern s st \<noteq> None \<longleftrightarrow>
     (\<exists>d rest. s = CHR ''='' # CHR ''s'' # d # rest \<and> digit d)"
proof (cases s)
  case Nil
  then show ?thesis by (simp add: s_param_pattern_def lit_def)
next
  case c1: (Cons a s1)
  show ?thesis
  proof (cases s1)
    case Nil
    with c1 show ?thesis by (simp add: s_param_pattern_def lit_def)
  next
    case c2: (Cons b s2)
    show ?thesis
    proof (cases s2)
      case Nil
      with c1 c2 show ?thesis by (simp add: s_param_pattern_def lit_def)
    next
      case (Cons d rest)
      with c1 c2 rmatch_star_last [of digit rest] show ?thesis
        by (auto simp: s_param_pattern_def lit_def)
    qed
  qed
qed

lemma startswith_s_param:
  "startswith s (''=s'' @ [d]) \<longleftrightarrow> (\<exists>rest. s = CHR ''='' # CHR ''s'' # d # rest)"
proof (cases s)
  case Nil
  then show ?thesis by (simp add: startswith_def)
next
  case c1: (Cons a s1)
  show ?thesis
  proof (cases s1)
    case Nil
    with c1 show ?thesis by (simp add: startswith_def)
  next
    case c2: (Cons b s2)
    with c1 show ?thesis by (cases s2) (auto simp: startswith_def)
  qed
qed

lemma re_search_s_param:
  "re_search s_param_pattern s \<noteq> None \<longleftrightarrow> (\<exists>d. digit d \<and> py_in (''=s'' @ [d]) s)"
proof (induction s)
  case Nil
  then show ?case by (simp add: s_param_pattern_def lit_def)
next
  case (Cons c cs)
  have "re_search s_param_pattern (c # cs) \<noteq> None \<longleftrightarrow>
          rmatch s_param_pattern (c # cs) ([], None) \<noteq> None \<or>
          re_search s_param_pattern cs \<noteq> None"
    by (auto split: option.splits)
  also have "\<dots> \<longleftrightarrow> (\<exists>d. digit d \<and> startswith (c # cs) (''=s'' @ [d])) \<or>
                   (\<exists>d. digit d \<and> py_in (''=s'' @ [d]) cs)"
    unfolding rmatch_s_param startswith_s_param Cons.IH by blast
  also have "\<dots> \<longleftrightarrow> (\<exists>d. digit d \<and> py_in (''=s'' @ [d]) (c # cs))"
    by auto
  finally show ?case .
qed

text \<open>
  The claim as stated fails: on the CDN address of scenario D the primary pass asks for
  800 pixels and the second pass for 1000.
\<close>

theorem image_cleaners_differ_counterexample:
  "clean_image_url cdn_image_url = Some ''https://lh3.googleusercontent.com/p/XYZ=s800'' \<and>
   GoogleMapsScraper_clean_image_url cdn_image_url
     = Some ''https://lh3.googleusercontent.com/p/XYZ=s1000''"
  by (simp add: clean_image_url_def GoogleMapsScraper_clean_image_url_def cdn_image_url_def
      upgrade_protocol_def startswith_def
      strip_size_params_def re_sub_empty.simps size_s_pattern_def size_wh_pattern_def lit_def
      digit_def dot_def push_def Let_def)

text \<open>
  C5 (as amended). The two cleaning functions return the same result exactly on the empty
  string and on the addresses that, after the upgrade of a protocol-relative address, do
  not contain the CDN host: both return nothing for the empty string and the upgraded
  address otherwise. On a CDN address both strip the same size fragments. To what is left
  the primary pass appends \<open>=s800\<close> when no \<open>=\<close> is left, \<open>&s=800\<close> when a \<open>=\<close>
  is left but no \<open>=s\<close> followed by a digit, and nothing otherwise; the second pass
  appends \<open>=s1000\<close> when no \<open>=\<close> is left and \<open>&s=1000\<close> otherwise.
\<close>

theorem image_cleaners_agree_iff:
  "(GoogleMapsScraper_clean_image_url u = clean_image_url u \<longleftrightarrow>
      u = [] \<or> \<not> py_in ''googleusercontent.com'' (upgrade_protocol u)) \<and>
   (u = [] \<longrightarrow> clean_image_url u = None \<and> GoogleMapsScraper_clean_image_url u = None) \<and>
   (u \<noteq> [] \<and> \<not> py_in ''googleusercontent.com'' (upgrade_protocol u) \<longrightarrow>
      clean_image_url u = Some (upgrade_protocol u) \<and>
      GoogleMapsScraper_clean_image_url u = Some (upgrade_protocol u)) \<and>
   (u \<noteq> [] \<and> py_in ''googleusercontent.com'' (upgrade_protocol u) \<longrightarrow>
      clean_image_url u =
        Some (strip_size_params (upgrade_protocol u) @
              (if \<not> py_in ''='' (strip_size_params (upgrade_protocol u)) then ''=s800''
               else if \<not> (\<exists>d. digit d \<and>
                              py_in (''=s'' @ [d]) (strip_size_params (upgrade_protocol u)))
                    then ''&s=800''
               else [])) \<and>
      GoogleMapsScraper_clean_image_url u =
        Some (strip_size_params (upgrade_protocol u) @
              (if \<not> py_in ''='' (strip_size_params (upgrade_protocol u)) then ''=s1000''
               else ''&s=1000'')))"
proof -
  have s: "re_search s_param_pattern b = None \<longleftrightarrow> \<not> (\<exists>d. digit d \<and> py_in (''=s'' @ [d]) b)"
    for b
    using re_search_s_param [of b] by blast
  show ?thesis
    unfolding GoogleMapsScraper_clean_image_url_def clean_image_url_def Let_def s
    by auto
qed

theorem image_cleaners_agree_iff_witness:
  "GoogleMapsScraper_clean_image_url ''//maps.gstatic.com/a.png''
     = clean_image_url ''//maps.gstatic.com/a.png'' \<and>
   clean_image_url ''//maps.gstatic.com/a.png'' = Some ''https://maps.gstatic.com/a.png'' \<and>
   GoogleMapsScraper_clean_image_url cdn_image_url \<noteq> clean_image_url cdn_image_url \<and>
   clean_image_url cdn_image_url = Some ''https://lh3.googleusercontent.com/p/XYZ=s800'' \<and>
   GoogleMapsScraper_clean_image_url cdn_image_url
     = Some ''https://lh3.googleusercontent.com/p/XYZ=s1000''"
proof -
  have b: "strip_size_params (upgrade_protocol cdn_image_url)
           = ''https://lh3.googleusercontent.com/p/XYZ''"
    by (simp add: cdn_image_url_def upgrade_protocol_def startswith_def
        strip_size_params_def re_sub_empty.simps size_s_pattern_def size_wh_pattern_def lit_def
        digit_def dot_def push_def)
  from image_cleaners_agree_iff [of "''//maps.gstatic.com/a.png''"]
    image_cleaners_agree_iff [of cdn_image_url] b
  show ?thesis
    by (simp add: upgrade_protocol_def startswith_def cdn_image_url_def)
qed

section \<open>Properties of the scroll loop\<close>

lemma scrolls_bounded:
  "count_list (events (pager_of (scroll_loop env tot st))) Scroll
     \<le> count_list (events st) Scroll + (max_scroll_attempts - scroll_attempts st)"
proof (induction env tot st rule: scroll_loop.induct)
  case (1 env tot st)
  note IH1 = "1.IH"(1) [OF _ _ refl _ _ _ refl refl refl]
  note IH2 = "1.IH"(2) [OF _ _ refl]
  show ?case
  proof (cases "scroll_attempts st < max_scroll_attempts \<and> wheel_ok env (scroll_attempts st)")
    case False
    then show ?thesis by (subst scroll_loop.simps) auto
  next
    case ok: True
    show ?thesis
    proof (cases "count_at env (scroll_attempts st)")
      case None
      with ok show ?thesis by (subst scroll_loop.simps) (auto simp: Let_def)
    next
      case (Some found)
      show ?thesis
        using ok Some IH1 [of found] IH2 [of found]
        by (subst scroll_loop.simps) (auto simp: Let_def)
    qed
  qed
qed

lemma stagnation_after_growth:
  assumes "\<forall>k. wheel_ok env k" and "\<forall>k. count_at env k = Some c" and "int c < tot" and "0 < c"
  shows "run_pager env tot = Finished \<lparr>previously_counted = c, scroll_attempts = 5,
           no_new_results_count = 5,
           events = [Scroll, Growth, Scroll, NoGrowth 1, Scroll, NoGrowth 2,
                     Corrective (sidebar_at env 2), Scroll, NoGrowth 3, Scroll, NoGrowth 4,
                     Scroll, NoGrowth 5]\<rparr>"
  using assms
  by (simp add: run_pager_def initial_pager_def scroll_loop.simps max_scroll_attempts_def Let_def
      flip: numeral_2_eq_2 One_nat_def)

lemma stagnation_from_zero:
  assumes "\<forall>k. wheel_ok env k" and "\<forall>k. count_at env k = Some 0" and "0 < tot"
  shows "run_pager env tot = Finished \<lparr>previously_counted = 0, scroll_attempts = 4,
           no_new_results_count = 5,
           events = [Scroll, NoGrowth 1, Scroll, NoGrowth 2,
                     Corrective (sidebar_at env 1), Scroll, NoGrowth 3, Scroll, NoGrowth 4,
                     Scroll, NoGrowth 5]\<rparr>"
  using assms
  by (simp add: run_pager_def initial_pager_def scroll_loop.simps max_scroll_attempts_def Let_def
      flip: numeral_2_eq_2 One_nat_def)

text \<open>
  C6 (as amended). When no scroll and no count raises and every count is the same \<open>c\<close>,
  below the target, the scroll loop ends exactly when it has registered five consecutive
  attempts without growth; an attempt is registered as without growth when its count
  equals the previous count, which starts at 0. With \<open>c = 0\<close> that is after five
  scrolls; with \<open>c > 0\<close> the first scroll is registered as growth and the loop ends
  after six scrolls. The corrective branch is taken exactly once, at the second
  consecutive attempt without growth (the second scroll for \<open>c = 0\<close>, the third
  otherwise); it scrolls the sidebar once when the sidebar is present and no call of the
  branch raises, and not at all otherwise. In all cases the loop scrolls at most 30 times.
\<close>

theorem pager_stagnation:
  assumes "\<forall>k. wheel_ok env k" and "\<forall>k. count_at env k = Some c" and "int c < tot"
  shows "run_pager env tot =
           Finished \<lparr>previously_counted = c,
             scroll_attempts = (if c = 0 then 4 else 5),
             no_new_results_count = 5,
             events = (if c = 0 then [] else [Scroll, Growth]) @
                      [Scroll, NoGrowth 1, Scroll, NoGrowth 2,
                       Corrective (sidebar_at env (if c = 0 then 1 else 2)),
                       Scroll, NoGrowth 3, Scroll, NoGrowth 4, Scroll, NoGrowth 5]\<rparr>
         \<and> scrolls (run_pager env tot) = (if c = 0 then 5 else 6)
         \<and> corrective_steps (run_pager env tot) = 1
         \<and> sidebar_scrolls (run_pager env tot) =
             (if sidebar_at env (if c = 0 then 1 else 2) = SidebarScrolled then 1 else 0)
         \<and> scrolls (run_pager env' tot') \<le> 30"
proof -
  have run: "run_pager env tot =
           Finished \<lparr>previously_counted = c,
             scroll_attempts = (if c = 0 then 4 else 5),
             no_new_results_count = 5,
             events = (if c = 0 then [] else [Scroll, Growth]) @
                      [Scroll, NoGrowth 1, Scroll, NoGrowth 2,
                       Corrective (sidebar_at env (if c = 0 then 1 else 2)),
                       Scroll, NoGrowth 3, Scroll, NoGrowth 4, Scroll, NoGrowth 5]\<rparr>"
  proof (cases "c = 0")
    case True
    with assms stagnation_from_zero [of env tot] show ?thesis by simp
  next
    case False
    with assms stagnation_after_growth [of env c tot] show ?thesis by simp
  qed
  have bound: "scrolls (run_pager env' tot') \<le> 30"
    using scrolls_bounded [of env' tot' initial_pager]
    by (simp add: scrolls_def run_pager_def initial_pager_def max_scroll_attempts_def)
  have "scrolls (run_pager env tot) = (if c = 0 then 5 else 6)"
    by (simp add: run scrolls_def)
  moreover have "corrective_steps (run_pager env tot) = 1"
    by (simp add: run corrective_steps_def)
  moreover have "sidebar_scrolls (run_pager env tot) =
             (if sidebar_at env (if c = 0 then 1 else 2) = SidebarScrolled then 1 else 0)"
    by (simp add: run sidebar_scrolls_def)
  ultimately show ?thesis
    using run bound by blast
qed

theorem pager_stagnation_witness:
  "run_pager stalled_env 10 =
     Finished \<lparr>previously_counted = 3, scroll_attempts = 5, no_new_results_count = 5,
       events = [Scroll, Growth, Scroll, NoGrowth 1, Scroll, NoGrowth 2,
                 Corrective SidebarScrolled, Scroll, NoGrowth 3, Scroll, NoGrowth 4,
                 Scroll, NoGrowth 5]\<rparr> \<and>
   scrolls (run_pager stalled_env 10) = 6 \<and>
   corrective_steps (run_pager stalled_env 10) = 1 \<and>
   sidebar_scrolls (run_pager stalled_env 10) = 1"
  using pager_stagnation [of stalled_env 3 10 stalled_env 10]
  by (simp add: stalled_env_def scrolls_def corrective_steps_def sidebar_scrolls_def)

text \<open>
  The claim as stated fails. On a list whose count is 3 at every scroll the loop scrolls
  six times, not five, and takes the corrective branch after the third scroll, since the
  first scroll is registered as growth. Without a sidebar the corrective branch scrolls
  nothing. On a list that shrinks from 3 to 2 and then stays, the loop scrolls seven times.
\<close>

theorem pager_stagnation_counterexample:
  "scrolls (run_pager stalled_env 10) = 6 \<and>
   take 7 (events (pager_of (run_pager stalled_env 10)))
     = [Scroll, Growth, Scroll, NoGrowth 1, Scroll, NoGrowth 2, Corrective SidebarScrolled] \<and>
   corrective_steps (run_pager bare_env 10) = 1 \<and>
   sidebar_scrolls (run_pager bare_env 10) = 0 \<and>
   scrolls (run_pager shrinking_env 10) = 7"
  by (simp add: scrolls_def corrective_steps_def sidebar_scrolls_def run_pager_def
      initial_pager_def scroll_loop.simps max_scroll_attempts_def Let_def
      stalled_env_def bare_env_def shrinking_env_def)

section \<open>Properties of the website URL cleaning\<close>

lemma strip_fixed:
  assumes "s \<noteq> []" and "\<not> whitespace (hd s)" and "\<not> whitespace (last s)"
  shows "strip s = s"
proof -
  from assms(1,2) have a: "dropWhile whitespace s = s"
    by (cases s) auto
  from assms(1,3) have "\<not> whitespace (hd (rev s))"
    by (simp add: hd_rev)
  with assms(1) have "dropWhile whitespace (rev s) = rev s"
    by (cases "rev s") auto
  with a show ?thesis
    by (simp add: strip_def)
qed

lemma strip_last:
  assumes "strip x \<noteq> []"
  shows "\<not> whitespace (last (strip x))"
proof -
  let ?z = "dropWhile whitespace (rev (dropWhile whitespace x))"
  from assms have "?z \<noteq> []"
    by (simp add: strip_def)
  then have "\<not> whitespace (hd ?z)"
    by (rule hd_dropWhile)
  with \<open>?z \<noteq> []\<close> show ?thesis
    by (simp add: strip_def last_rev)
qed

lemma add_protocol_cases:
  "add_protocol y = ''https://'' @ y \<or>
   (add_protocol y = y \<and> (startswith y ''http://'' \<or> startswith y ''https://''))"
  by (auto simp: add_protocol_def)

lemma startswith_append_self: "startswith (p @ y) p"
  by (simp add: startswith_def)

lemma startswith_hd:
  "startswith y (c # p) \<Longrightarrow> y \<noteq> [] \<and> hd y = c"
  by (cases y) (auto simp: startswith_def)

lemma add_protocol_shape:
  "add_protocol y \<noteq> [] \<and> hd (add_protocol y) = CHR ''h'' \<and>
   (startswith (add_protocol y) ''http://'' \<or> startswith (add_protocol y) ''https://'')"
  using add_protocol_cases [of y] startswith_append_self [of "''https://''" y]
  by (auto dest: startswith_hd)

lemma add_protocol_fixed: "add_protocol (add_protocol y) = add_protocol y"
proof -
  have "\<not> startswith (add_protocol y) ''www.''"
    using add_protocol_shape [of y]
    by (cases "add_protocol y") (auto simp: startswith_def)
  with add_protocol_shape [of y] show ?thesis
    by (subst add_protocol_def) auto
qed

lemma add_protocol_strip_last:
  "\<not> whitespace (last (add_protocol (strip x)))"
proof (cases "strip x = []")
  case True
  then show ?thesis
    by (simp add: add_protocol_def startswith_def whitespace_def)
next
  case False
  then have "last (add_protocol (strip x)) = last (strip x)"
    using add_protocol_cases [of "strip x"] by auto
  with False strip_last [of x] show ?thesis by simp
qed

lemma strip_add_protocol_strip:
  "strip (add_protocol (strip x)) = add_protocol (strip x)"
  using add_protocol_shape [of "strip x"] add_protocol_strip_last [of x]
  by (intro strip_fixed) (auto simp: whitespace_def)

lemma clean_website_url_Some:
  assumes "clean_website_url L u = Some v"
  shows "\<exists>x r. v = add_protocol (strip x) \<and> urlparse L v = Inr r \<and> netloc r \<noteq> [] \<and>
           CHR ''.'' \<in> set (netloc r) \<and>
           \<not> list_ex (\<lambda>domain. py_in domain (lower (netloc r))) excluded_domains"
  using assms
  by (auto simp: clean_website_url_def Let_def split: sum.splits if_splits)

text \<open>
  C7 (as amended). Website normalization is idempotent on its results that contain no
  redirect marker: if \<open>clean_website_url\<close> returns \<open>v\<close> and \<open>v\<close> does not contain
  \<open>google.com/url?q=\<close>, then \<open>clean_website_url\<close> maps \<open>v\<close> to itself.
\<close>

theorem clean_website_url_idempotent:
  assumes "clean_website_url L u = Some v" and "\<not> py_in ''google.com/url?q='' v"
  shows "clean_website_url L v = Some v"
proof -
  from assms(1) obtain x r where v: "v = add_protocol (strip x)"
    and r: "urlparse L v = Inr r" "netloc r \<noteq> []" "CHR ''.'' \<in> set (netloc r)"
      "\<not> list_ex (\<lambda>domain. py_in domain (lower (netloc r))) excluded_domains"
    using clean_website_url_Some by blast
  from assms(2) have "unwrap_redirect L v = Inr v"
    by (simp add: unwrap_redirect_def)
  moreover have "add_protocol (strip v) = v"
    by (simp add: v strip_add_protocol_strip add_protocol_fixed)
  ultimately show ?thesis
    using r by (simp add: clean_website_url_def)
qed

theorem clean_website_url_idempotent_witness:
  "clean_website_url plain_lib ''https://www.google.com/url?q=https://example.com&sa=U''
     = Some ''https://example.com'' \<and>
   clean_website_url plain_lib ''https://example.com'' = Some ''https://example.com''"
proof -
  have a: "clean_website_url plain_lib ''https://www.google.com/url?q=https://example.com&sa=U''
     = Some ''https://example.com''"
    by (simp add: clean_website_url_def unwrap_redirect_def urlparse_def urlsplit_def
        split_scheme_def parse_qs_def parse_qsl_def partition_on_def unquote_plus_def
        replace_char_def remove_chars_def c0_control_or_space_def ascii_alpha_def
        scheme_char_def digit_def netloc_end_def add_protocol_def strip_def whitespace_def
        startswith_def lower_def lower_char_def excluded_domains_def plain_lib_def Let_def)
  have b: "\<not> py_in ''google.com/url?q='' ''https://example.com''"
    by (simp add: startswith_def)
  from clean_website_url_idempotent [OF a b] a show ?thesis by simp
qed

text \<open>
  The claim as stated fails: only one redirect wrapper is removed per call, so the result
  of a wrapper around an address that itself contains the marker is unwrapped again.
\<close>

theorem nested_redirect_counterexample:
  "clean_website_url plain_lib nested_redirect
     = Some ''https://example.com/google.com/url?q=example.org'' \<and>
   clean_website_url plain_lib ''https://example.com/google.com/url?q=example.org''
     = Some ''https://example.org''"
  by (simp add: clean_website_url_def unwrap_redirect_def urlparse_def urlsplit_def
        split_scheme_def parse_qs_def parse_qsl_def partition_on_def unquote_plus_def
        replace_char_def remove_chars_def c0_control_or_space_def ascii_alpha_def
        scheme_char_def digit_def netloc_end_def add_protocol_def strip_def whitespace_def
        startswith_def lower_def lower_char_def excluded_domains_def plain_lib_def
        nested_redirect_def Let_def)

section \<open>Properties of the coordinate resolver\<close>

lemma read_pair_ok: "read_pair ok a b = Inr (Some (la, lo)) \<Longrightarrow> ok la lo"
  by (auto simp: read_pair_def split: float_result.splits if_splits)

lemma read_pair_accepts:
  "py_float a = Finite la \<Longrightarrow> py_float b = Finite lo \<Longrightarrow> ok la lo \<Longrightarrow>
   read_pair ok a b = Inr (Some (la, lo))"
  by (simp add: read_pair_def)

lemma read_groups_ok: "read_groups ok gs = Inr (Some (la, lo)) \<Longrightarrow> ok la lo"
  by (auto simp: read_groups_def split: list.splits dest: read_pair_ok)

lemma url_tier_ok: "url_tier ps u = Inr (Some (la, lo)) \<Longrightarrow> in_range la lo"
  by (induction ps) (auto split: option.splits sum.splits dest: read_groups_ok)

lemma url_tier_skips:
  "\<forall>q \<in> set qs. re_search q u = None \<Longrightarrow> url_tier (qs @ ps) u = url_tier ps u"
  by (induction qs) auto

lemma url_tier_accepts:
  assumes "\<forall>q \<in> set qs. re_search q u = None"
    and "re_search p u = Some (pre, g1 # g2 # gs, post)"
    and "py_float g1 = Finite la" and "py_float g2 = Finite lo" and "in_range la lo"
  shows "url_tier (qs @ p # ps) u = Inr (Some (la, lo))"
  using assms
  by (simp add: url_tier_skips read_groups_def read_pair_accepts)

lemma scan_matches_ok: "scan_matches ok ms = Inr (Some (la, lo)) \<Longrightarrow> ok la lo"
  by (induction ms) (auto split: option.splits sum.splits dest: read_groups_ok)

lemma content_scan_ok: "content_scan ok ps c = Some (la, lo) \<Longrightarrow> ok la lo"
  by (induction ps) (auto split: option.splits sum.splits dest: scan_matches_ok)

lemma attribute_tier_ok: "attribute_tier pg sels = Inr (Some (la, lo)) \<Longrightarrow> in_range la lo"
  by (induction sels) (auto split: option.splits sum.splits if_splits dest: read_pair_ok)

lemma attribute_tier_skips:
  "\<forall>s \<in> set ss. first_match pg s = Inr None \<Longrightarrow>
   attribute_tier pg (ss @ sels) = attribute_tier pg sels"
  by (induction ss) auto

lemma attribute_tier_accepts:
  assumes "\<forall>s \<in> set ss. first_match pg s = Inr None"
    and "first_match pg sel = Inr (Some el)"
    and "attribute_or el ''data-lat'' ''data-latitude'' = Inr (Some x)" and "x \<noteq> []"
    and "attribute_or el ''data-lng'' ''data-longitude'' = Inr (Some y)" and "y \<noteq> []"
    and "py_float x = Finite la" and "py_float y = Finite lo" and "in_range la lo"
  shows "attribute_tier pg (ss @ sel # sels) = Inr (Some (la, lo))"
  using assms
  by (simp add: attribute_tier_skips truthy_def read_pair_accepts)

lemmas binary64_eval = binary64_def binary64_frac_def bit_length.simps round_half_even_def

lemma origin_epsilon_value: "origin_epsilon = 1152921504606847 / 1152921504606846976"
  by (simp add: origin_epsilon_def binary64_eval Let_def)

lemma content_tier_ok:
  assumes "content_tier pg = Some (la, lo)"
  shows "in_range la lo \<and> \<bar>la\<bar> > 0.001 \<and> \<bar>lo\<bar> > 0.001"
proof -
  from assms have "in_range_not_origin la lo"
    by (auto simp: content_tier_def split: if_splits sum.splits dest: content_scan_ok)
  then show ?thesis
    by (simp add: in_range_not_origin_def in_range_def origin_epsilon_value)
qed

text \<open>
  C3 (as amended). Each of the three tiers of \<open>extract_coordinates\<close> validates the
  numeric range before it accepts a pair: a pair returned by the URL tier, by the
  embedded-content tier, by the attribute tier or by \<open>extract_coordinates\<close> as a whole
  has its latitude in [-90, 90] and its longitude in [-180, 180]. The embedded-content
  tier also requires both absolute values to exceed 0.001. The URL tier and the attribute
  tier have no such test: the URL tier returns the pair of the first pattern that matches
  the address whenever that pair is in range, and the attribute tier returns the pair of
  the first element found whenever its two attributes are numbers in range.
\<close>

theorem coordinate_tiers_validate:
  "(url_tier url_patterns (url pg) = Inr (Some (lat_u, lng_u)) \<longrightarrow> in_range lat_u lng_u) \<and>
   (content_tier pg = Some (lat_c, lng_c) \<longrightarrow>
      in_range lat_c lng_c \<and> \<bar>lat_c\<bar> > 0.001 \<and> \<bar>lng_c\<bar> > 0.001) \<and>
   (attribute_tier pg data_selectors = Inr (Some (lat_a, lng_a)) \<longrightarrow> in_range lat_a lng_a) \<and>
   (extract_coordinates pg = Some (lat_e, lng_e) \<longrightarrow> in_range lat_e lng_e) \<and>
   ((\<forall>q \<in> set qs. re_search q u = None) \<and>
    re_search p u = Some (pre, g1 # g2 # gs, post) \<and>
    py_float g1 = Finite la \<and> py_float g2 = Finite lo \<and> in_range la lo \<longrightarrow>
      url_tier (qs @ p # ps) u = Inr (Some (la, lo))) \<and>
   ((\<forall>s \<in> set ss. first_match pg' s = Inr None) \<and>
    first_match pg' sel = Inr (Some el) \<and>
    attribute_or el ''data-lat'' ''data-latitude'' = Inr (Some x) \<and> x \<noteq> [] \<and>
    attribute_or el ''data-lng'' ''data-longitude'' = Inr (Some y) \<and> y \<noteq> [] \<and>
    py_float x = Finite la' \<and> py_float y = Finite lo' \<and> in_range la' lo' \<longrightarrow>
      attribute_tier pg' (ss @ sel # sels) = Inr (Some (la', lo')))"
proof (intro conjI impI)
  assume "url_tier url_patterns (url pg) = Inr (Some (lat_u, lng_u))"
  then show "in_range lat_u lng_u" by (rule url_tier_ok)
next
  assume c: "content_tier pg = Some (lat_c, lng_c)"
  from content_tier_ok [OF c] show "in_range lat_c lng_c" by simp
  from content_tier_ok [OF c] show "\<bar>lat_c\<bar> > 0.001" by simp
  from content_tier_ok [OF c] show "\<bar>lng_c\<bar> > 0.001" by simp
next
  assume "attribute_tier pg data_selectors = Inr (Some (lat_a, lng_a))"
  then show "in_range lat_a lng_a" by (rule attribute_tier_ok)
next
  assume "extract_coordinates pg = Some (lat_e, lng_e)"
  then have "url_tier url_patterns (url pg) = Inr (Some (lat_e, lng_e)) \<or>
             content_tier pg = Some (lat_e, lng_e) \<or>
             attribute_tier pg data_selectors = Inr (Some (lat_e, lng_e))"
    by (auto simp: extract_coordinates_def split: sum.splits option.splits)
  then show "in_range lat_e lng_e"
    using url_tier_ok attribute_tier_ok content_tier_ok by blast
next
  assume "(\<forall>q \<in> set qs. re_search q u = None) \<and>
    re_search p u = Some (pre, g1 # g2 # gs, post) \<and>
    py_float g1 = Finite la \<and> py_float g2 = Finite lo \<and> in_range la lo"
  then show "url_tier (qs @ p # ps) u = Inr (Some (la, lo))"
    using url_tier_accepts by blast
next
  assume "(\<forall>s \<in> set ss. first_match pg' s = Inr None) \<and>
    first_match pg' sel = Inr (Some el) \<and>
    attribute_or el ''data-lat'' ''data-latitude'' = Inr (Some x) \<and> x \<noteq> [] \<and>
    attribute_or el ''data-lng'' ''data-longitude'' = Inr (Some y) \<and> y \<noteq> [] \<and>
    py_float x = Finite la' \<and> py_float y = Finite lo' \<and> in_range la' lo'"
  then show "attribute_tier pg' (ss @ sel # sels) = Inr (Some (la', lo'))"
    using attribute_tier_accepts by blast
qed

lemmas regex_eval = lit_def number_group_def digit_def dot_def push_def
lemmas float_eval = py_float_def strip_def whitespace_def split_sign_def
  remove_chars_def lower_def lower_char_def exponent_def nat_of_digits_def digit_value_def
  decimal_binary64_def binary64_eval

lemma origin_url: "extract_coordinates origin_url_page = Some (0, 0)"
  by (simp add: extract_coordinates_def origin_url_page_def url_patterns_def regex_eval
      read_groups_def read_pair_def float_eval in_range_def Let_def)

lemma origin_attr: "extract_coordinates origin_attribute_page = Some (0, 0)"
  by (simp add: extract_coordinates_def origin_attribute_page_def url_patterns_def regex_eval
      read_groups_def read_pair_def float_eval in_range_def Let_def content_tier_def
      coord_patterns_def finditer.simps data_selectors_def first_match_def attribute_or_def
      truthy_def origin_marker_def)

theorem coordinate_tiers_validate_witness:
  "url_tier url_patterns (url geo_page) = Inr (Some (farm_latitude, farm_longitude)) \<and>
   content_tier geo_page = Some (farm_latitude, farm_longitude) \<and>
   attribute_tier geo_page data_selectors = Inr (Some (farm_latitude, farm_longitude)) \<and>
   extract_coordinates geo_page = Some (farm_latitude, farm_longitude) \<and>
   in_range farm_latitude farm_longitude \<and> \<bar>farm_latitude\<bar> > 0.001 \<and>
   url_tier url_patterns (url origin_url_page) = Inr (Some (0, 0)) \<and>
   attribute_tier origin_attribute_page data_selectors = Inr (Some (0, 0))"
proof -
  have a1: "url_tier url_patterns (url geo_page) = Inr (Some (farm_latitude, farm_longitude))"
    by (simp add: geo_page_def url_patterns_def regex_eval read_groups_def read_pair_def
        float_eval in_range_def farm_latitude_def farm_longitude_def Let_def)
  have a2: "content_tier geo_page = Some (farm_latitude, farm_longitude)"
    by (simp add: content_tier_def geo_page_def coord_patterns_def finditer.simps regex_eval
        read_groups_def read_pair_def float_eval in_range_not_origin_def origin_epsilon_def
        farm_latitude_def farm_longitude_def Let_def)
  have a3: "attribute_tier geo_page data_selectors = Inr (Some (farm_latitude, farm_longitude))"
    by (simp add: geo_page_def data_selectors_def first_match_def attribute_or_def truthy_def
        geo_marker_def read_pair_def float_eval digit_def in_range_def
        farm_latitude_def farm_longitude_def Let_def)
  have a4: "extract_coordinates geo_page = Some (farm_latitude, farm_longitude)"
    by (simp add: extract_coordinates_def a1)
  have u1: "re_search (lit ''/@'' @ number_group @ lit '','' @ number_group @ lit '','')
              (url origin_url_page)
            = Some (''https://www.google.com/maps/place/Null+Island'', [''0'', ''0''], ''15z'')"
    by (simp add: origin_url_page_def regex_eval)
  have u2: "py_float ''0'' = Finite 0"
    by (simp add: float_eval digit_def Let_def)
  have u3: "in_range 0 0"
    by (simp add: in_range_def)
  have m1: "first_match origin_attribute_page ''[data-lat][data-lng]'' = Inr (Some origin_marker)"
    by (simp add: first_match_def origin_attribute_page_def)
  have m2: "attribute_or origin_marker ''data-lat'' ''data-latitude'' = Inr (Some ''0'')"
    by (simp add: attribute_or_def origin_marker_def truthy_def)
  have m3: "attribute_or origin_marker ''data-lng'' ''data-longitude'' = Inr (Some ''0'')"
    by (simp add: attribute_or_def origin_marker_def truthy_def)
  from coordinate_tiers_validate [where pg = geo_page
      and lat_u = farm_latitude and lng_u = farm_longitude
      and lat_c = farm_latitude and lng_c = farm_longitude
      and lat_a = farm_latitude and lng_a = farm_longitude
      and lat_e = farm_latitude and lng_e = farm_longitude
      and qs = "[]" and u = "url origin_url_page"
      and p = "lit ''/@'' @ number_group @ lit '','' @ number_group @ lit '',''"
      and pre = "''https://www.google.com/maps/place/Null+Island''"
      and ?g1.0 = "''0''" and ?g2.0 = "''0''" and gs = "[]" and post = "''15z''"
      and la = 0 and lo = 0 and ps = "tl url_patterns"
      and ss = "[]" and pg' = origin_attribute_page and sel = "''[data-lat][data-lng]''"
      and el = origin_marker and x = "''0''" and y = "''0''" and la' = 0 and lo' = 0
      and sels = "tl data_selectors"]
    a1 a2 a3 a4 u1 u2 u3 m1 m2 m3
  show ?thesis
    by (simp add: url_patterns_def data_selectors_def)
qed

text \<open>
  The claim as stated fails: the URL tier returns the pair (0, 0) for an address that has
  \<open>/@0,0,\<close>, and the attribute tier returns it for an element whose data attributes
  are both 0.
\<close>

theorem origin_accepted_counterexample:
  "extract_coordinates origin_url_page = Some (0, 0) \<and>
   extract_coordinates origin_attribute_page = Some (0, 0)"
  using origin_url origin_attr by simp

section \<open>Properties of scrape_places\<close>

lemma name_set_coordinates [simp]: "name (set_coordinates c p) = name p"
  by (simp add: set_coordinates_def split: option.splits prod.splits)

lemma process_candidate_result:
  "process_candidate L listing acc = acc \<or>
   (\<exists>p. process_candidate L listing acc = acc @ [p] \<and>
        truthy (name p) \<and> the (name p) \<notin> set name_sentinels)"
  by (simp add: process_candidate_def Let_def)

lemma name_visit_details:
  "name (visit_details L pg) = name (fst (extract_place L pg))"
  by (simp add: visit_details_def Let_def case_prod_unfold)

lemma process_candidate_rejects:
  assumes "\<not> truthy (name (fst (extract_place L (detail listing)))) \<or>
           the (name (fst (extract_place L (detail listing)))) \<in> set name_sentinels"
  shows "process_candidate L listing acc = acc"
  using assms
  by (auto simp: process_candidate_def Let_def name_visit_details)

lemma process_listings_full:
  "tot \<le> int (length acc) \<Longrightarrow> process_listings L tot listings acc = acc"
  by (cases listings) auto

lemma process_listings_length:
  "int (length acc) \<le> tot \<Longrightarrow> int (length (process_listings L tot listings acc)) \<le> tot"
proof (induction listings arbitrary: acc)
  case Nil
  then show ?case by simp
next
  case (Cons listing rest)
  show ?case
  proof (cases "tot \<le> int (length acc)")
    case True
    with Cons.prems show ?thesis by simp
  next
    case False
    then have "int (length (process_candidate L listing acc)) \<le> tot"
      using process_candidate_result [of L listing acc] by auto
    from Cons.IH [OF this] False show ?thesis by simp
  qed
qed

lemma process_listings_names:
  assumes "\<forall>p \<in> set acc. truthy (name p) \<and> the (name p) \<notin> set name_sentinels"
  shows "\<forall>p \<in> set (process_listings L tot listings acc).
           truthy (name p) \<and> the (name p) \<notin> set name_sentinels"
  using assms
proof (induction listings arbitrary: acc)
  case Nil
  then show ?case by simp
next
  case (Cons listing rest)
  have "\<forall>p \<in> set (process_candidate L listing acc).
          truthy (name p) \<and> the (name p) \<notin> set name_sentinels"
    using process_candidate_result [of L listing acc] Cons.prems by auto
  from Cons.IH [OF this] Cons.prems show ?case by simp
qed

lemma scrape_places_cases:
  assumes "scrape_places L env tot = Inr places"
  shows "places = [] \<or> (\<exists>listings. places = process_listings L tot listings [])"
  using assms
  by (auto simp: scrape_places_def try_block_def with_page_def
      split: prod.splits if_splits pager_result.splits option.splits)

text \<open>
  C10. For a positive target, a run that returns holds at most \<open>total\<close> places: the loop
  over the listings tests the number of accepted places before each listing and leaves
  the list as it is once that number has reached the target.
\<close>

theorem output_within_target:
  "(0 < tot \<and> scrape_places L env tot = Inr places \<longrightarrow> int (length places) \<le> tot) \<and>
   (tot \<le> int (length acc) \<longrightarrow> process_listings L tot listings acc = acc)"
proof (intro conjI impI)
  assume a: "0 < tot \<and> scrape_places L env tot = Inr places"
  then consider "places = []" | ls where "places = process_listings L tot ls []"
    using scrape_places_cases by blast
  then show "int (length places) \<le> tot"
  proof cases
    case 1
    with a show ?thesis by simp
  next
    case 2
    from a have "int (length ([] :: Place list)) \<le> tot" by simp
    from process_listings_length [OF this] 2 show ?thesis by simp
  qed
next
  assume "tot \<le> int (length acc)"
  then show "process_listings L tot listings acc = acc"
    by (rule process_listings_full)
qed

text \<open>
  C9. Every place of the returned list has a name that is set, not empty and neither
  \<open>Unknown\<close> nor \<open>Failed to extract\<close>; a listing whose extracted name is missing,
  empty or one of these sentinel values adds nothing to the list.
\<close>

theorem accepted_names_valid:
  "(scrape_places L env tot = Inr places \<and> p \<in> set places \<longrightarrow>
      (\<exists>n. name p = Some n \<and> n \<noteq> [] \<and> n \<noteq> ''Unknown'' \<and> n \<noteq> ''Failed to extract'')) \<and>
   (\<not> truthy (name (fst (extract_place L (detail listing)))) \<or>
    the (name (fst (extract_place L (detail listing)))) \<in> set name_sentinels \<longrightarrow>
      process_candidate L listing acc = acc)"
proof (intro conjI impI)
  assume a: "scrape_places L env tot = Inr places \<and> p \<in> set places"
  then obtain ls where "places = process_listings L tot ls []"
    using scrape_places_cases [of L env tot places] by auto
  with a process_listings_names [of "[]" L tot ls]
  have "truthy (name p) \<and> the (name p) \<notin> set name_sentinels" by simp
  then show "\<exists>n. name p = Some n \<and> n \<noteq> [] \<and> n \<noteq> ''Unknown'' \<and> n \<noteq> ''Failed to extract''"
    by (cases "name p") (auto simp: truthy_def name_sentinels_def)
next
  assume "\<not> truthy (name (fst (extract_place L (detail listing)))) \<or>
    the (name (fst (extract_place L (detail listing)))) \<in> set name_sentinels"
  then show "process_candidate L listing acc = acc"
    by (rule process_candidate_rejects)
qed

text \<open>
  C8 (as amended). A run raises exactly when closing the browser in the \<open>finally\<close>
  clause raises. When that does not raise, every run returns a list, whatever the other
  calls do: the empty list when starting the browser, opening the page, the navigation,
  the search, the wait for the first result link, a scroll or count of the paging, the
  size of the buffer, the final count or the listing fails, and otherwise the places that
  the loop over the listings accepted, also when closing the page raises.
\<close>

theorem scrape_places_returns:
  "(\<not> close_ok env \<longrightarrow> scrape_places L env tot = Inl BrowserError) \<and>
   (close_ok env \<longrightarrow>
      scrape_places L env tot =
        Inr (if start_ok env \<and> new_page_ok env \<and> goto_ok env \<and> fill_ok env \<and>
                press_ok env \<and> results_found env
             then (case run_pager env tot of
                     Raised st \<Rightarrow> []
                   | Finished st \<Rightarrow>
                       (case (buffered tot, final_count env, all_listings env) of
                          (Some target_raw, Some n, Some raw_listings) \<Rightarrow>
                            process_listings L tot
                              (py_take (min target_raw (int n)) raw_listings) []
                        | _ \<Rightarrow> []))
             else []))"
  by (auto simp: scrape_places_def try_block_def with_page_def
      split: prod.splits pager_result.splits option.splits)

lemmas regex_eval2 = lit_def number_group_def digit_def dot_def push_def finditer.simps
lemmas float_eval2 = py_float_def strip_def whitespace_def split_sign_def
  remove_chars_def lower_def lower_char_def exponent_def nat_of_digits_def digit_value_def
  decimal_binary64_def binary64_def binary64_frac_def bit_length.simps round_half_even_def
lemmas url_eval = clean_website_url_def unwrap_redirect_def urlparse_def urlsplit_def
  split_scheme_def parse_qs_def parse_qsl_def partition_on_def unquote_plus_def
  replace_char_def c0_control_or_space_def ascii_alpha_def
  scheme_char_def netloc_end_def add_protocol_def
  startswith_def excluded_domains_def plain_lib_def
lemmas selector_eval = name_selectors_def address_selectors_def phone_selectors_def
  rating_selectors_def reviews_selectors_def website_selectors_def info_buttons_def
  image_selectors_def fallback_selectors_def data_selectors_def
  advanced_website_selectors_def advanced_info_buttons_def advanced_image_selectors_def
  gallery_selectors_def photo_buttons_def http_link_selector_def cdn_image_selector_def
lemmas extract_eval = extract_place_def extract_name_def extract_address_def extract_phone_def
  extract_rating_def extract_reviews_count_def extract_website_def extract_image_def
  extract_coordinates_def probe_text_def probe_raw_text_def probe_rating_def probe_reviews_def
  probe_website_def probe_image_def first_match_def truthy_def attribute_or_def
  website_from_content_def content_url_patterns_def url_patterns_def coord_patterns_def
  content_tier_def read_groups_def read_pair_def in_range_def in_range_not_origin_def
  extract_coordinates_from_url_def extract_coordinates_advanced_def advanced_patterns_def
  extract_website_advanced_def probe_website_advanced_def extract_image_advanced_def
  set_coordinates_def has_coordinates_def new_Place_def name_sentinels_def
  max_click_attempts_def



lemma process_farm:
  "process_candidate plain_lib farm_listing places = places @ [farm_record]"
  by (simp add: process_candidate_def visit_details_def farm_listing_def farm_page_def farm_heading_def farm_link_def
      farm_record_def farm_latitude_def farm_longitude_def
      extract_eval selector_eval url_eval regex_eval2 float_eval2 origin_epsilon_def Let_def
      upt_rec)

lemma process_blank:
  "process_candidate plain_lib blank_listing places = places"
  by (simp add: process_candidate_def visit_details_def blank_listing_def empty_page_def
      extract_eval selector_eval url_eval regex_eval2 float_eval2 Let_def
      upt_rec)

lemma pager_reaches_target:
  "count_at env 0 = Some n \<Longrightarrow> wheel_ok env 0 \<Longrightarrow> tot \<le> int n \<Longrightarrow>
   run_pager env tot = Finished (initial_pager\<lparr>events := [Scroll]\<rparr>)"
  by (simp add: run_pager_def scroll_loop.simps initial_pager_def max_scroll_attempts_def)

lemma farm_run:
  "scrape_places plain_lib farm_env 2 = Inr [farm_record, farm_record]"
  by (simp add: scrape_places_def try_block_def with_page_def farm_env_def pager_reaches_target
      buffered_def binary64_frac_def bit_length.simps round_half_even_def Let_def
      py_take_def process_farm process_blank)

lemma page_close_run:
  "scrape_places plain_lib page_close_fails_env 2 = Inr [farm_record, farm_record]"
  by (simp add: scrape_places_def try_block_def with_page_def page_close_fails_env_def
      farm_env_def pager_reaches_target
      buffered_def binary64_frac_def bit_length.simps round_half_even_def Let_def
      py_take_def process_farm process_blank)

theorem scrape_places_returns_witness:
  "close_ok timeout_env \<and> scrape_places plain_lib timeout_env 10 = Inr [] \<and>
   \<not> close_ok close_fails_env \<and>
   scrape_places plain_lib close_fails_env 10 = Inl BrowserError \<and>
   close_ok page_close_fails_env \<and> \<not> page_close_ok page_close_fails_env \<and>
   scrape_places plain_lib page_close_fails_env 2 = Inr [farm_record, farm_record]"
  using scrape_places_returns [of timeout_env plain_lib 10]
    scrape_places_returns [of close_fails_env plain_lib 10]
    scrape_places_returns [of page_close_fails_env plain_lib 2] page_close_run
  by (simp add: close_fails_env_def timeout_env_def page_close_fails_env_def farm_env_def)

text \<open>
  The claim as stated fails: the browser is closed outside the exception handler, so a
  run whose wait for the results timed out raises when closing the browser raises.
\<close>

theorem close_raises_counterexample:
  "goto_ok close_fails_env \<and> fill_ok close_fails_env \<and> press_ok close_fails_env \<and>
   \<not> results_found close_fails_env \<and>
   scrape_places plain_lib close_fails_env 10 = Inl BrowserError"
  by (simp add: scrape_places_def close_fails_env_def timeout_env_def farm_env_def
      split: prod.splits)

theorem output_within_target_witness:
  "scrape_places plain_lib farm_env 2 = Inr [farm_record, farm_record] \<and>
   process_listings plain_lib 2 [farm_listing] [farm_record, farm_record]
     = [farm_record, farm_record]"
  using output_within_target [of 2 plain_lib farm_env "[farm_record, farm_record]"
      "[farm_record, farm_record]" "[farm_listing]"] farm_run
  by simp

theorem accepted_names_valid_witness:
  "scrape_places plain_lib farm_env 2 = Inr [farm_record, farm_record] \<and>
   name farm_record = Some ''Green Acres Sod Farm'' \<and>
   name (fst (extract_place plain_lib (detail blank_listing))) = Some ''Unknown'' \<and>
   process_candidate plain_lib blank_listing [farm_record] = [farm_record]"
proof -
  have u: "name (fst (extract_place plain_lib (detail blank_listing))) = Some ''Unknown''"
    by (simp add: blank_listing_def empty_page_def extract_place_def extract_name_def
        probe_text_def probe_raw_text_def first_match_def name_selectors_def new_Place_def
        Let_def split: prod.splits option.splits)
  from accepted_names_valid [of plain_lib farm_env 2 "[farm_record, farm_record]" farm_record
      blank_listing "[farm_record]"] farm_run u
  show ?thesis
    by (simp add: farm_record_def new_Place_def name_sentinels_def)
qed

lemma process_search:
  "process_candidate plain_lib search_listing places = places @ [search_record]"
  by (simp add: process_candidate_def visit_details_def search_listing_def search_page_def farm_heading_def
      search_link_def search_record_def
      farm_record_def farm_latitude_def farm_longitude_def
      extract_eval selector_eval url_eval regex_eval2 float_eval2 origin_epsilon_def Let_def
      upt_rec alnum_dash_def path_char_def url_tail_def probe_content_url_def
      content_excludes_def)

lemma first_some_Some: "first_some f xs = Some y \<Longrightarrow> \<exists>x \<in> set xs. f x = Some y"
  by (induction xs) (auto split: option.splits)

lemma probe_website_cleaned:
  "probe_website L pg selector = Some w \<Longrightarrow> \<exists>u. clean_website_url L u = Some w"
  by (auto simp: probe_website_def Let_def split: sum.splits option.splits if_splits)

lemma website_by_click_cleaned:
  "website_by_click L pg selectors = (Some w, pg') \<Longrightarrow> \<exists>u. clean_website_url L u = Some w"
  by (induction selectors arbitrary: pg)
     (auto split: sum.splits option.splits if_splits)

lemma website_from_content_cleaned:
  "website_from_content L pg = Some w \<Longrightarrow> \<exists>u. clean_website_url L u = Some w"
  by (auto simp: website_from_content_def probe_content_url_def Let_def
      split: sum.splits if_splits dest!: first_some_Some)

lemma extract_website_cleaned:
  assumes "fst (extract_website L pg) = Some w"
  shows "\<exists>u. clean_website_url L u = Some w"
proof (cases "first_some (probe_website L pg) website_selectors")
  case (Some w')
  with assms have "first_some (probe_website L pg) website_selectors = Some w"
    by (simp add: extract_website_def)
  then show ?thesis
    by (auto dest!: first_some_Some probe_website_cleaned)
next
  case None
  obtain r pg' where c: "website_by_click L pg info_buttons = (r, pg')"
    by (cases "website_by_click L pg info_buttons")
  show ?thesis
  proof (cases r)
    case (Some w')
    with assms None c have "website_by_click L pg info_buttons = (Some w, pg')"
      by (simp add: extract_website_def)
    then show ?thesis by (rule website_by_click_cleaned)
  next
    case n: None
    with assms None c have "website_from_content L pg' = Some w"
      by (simp add: extract_website_def)
    then show ?thesis by (rule website_from_content_cleaned)
  qed
qed

lemma primary_website_not_excluded:
  assumes "website (fst (extract_place L pg)) = Some w"
  shows "\<exists>r. urlparse L w = Inr r \<and>
           \<not> list_ex (\<lambda>domain. py_in domain (lower (netloc r))) excluded_domains"
proof -
  from assms have "fst (extract_website L pg) = Some w"
    by (simp add: extract_place_def Let_def case_prod_unfold split: option.splits)
  then obtain u where "clean_website_url L u = Some w"
    using extract_website_cleaned by blast
  then show ?thesis
    using clean_website_url_Some by blast
qed

lemma search_run:
  "scrape_places plain_lib search_env 1 = Inr [search_record]"
  by (simp add: scrape_places_def try_block_def with_page_def search_env_def farm_env_def
      pager_reaches_target buffered_def binary64_frac_def bit_length.simps round_half_even_def
      Let_def py_take_def process_search)

text \<open>
  C2. The second pass returns the link of the website button as it is. On a detail view
  whose website button points to the search engine itself, the first pass finds no
  website (the denylist refuses the link), the second pass stores the link, and the
  record of the output has a website on a denylisted host.
\<close>

theorem advanced_website_unfiltered:
  "scrape_places plain_lib search_env 1 = Inr [search_record] \<and>
   website search_record = Some ''https://www.google.com/search?q=Green+Acres+Sod+Farm'' \<and>
   map_sum id netloc (urlparse plain_lib ''https://www.google.com/search?q=Green+Acres+Sod+Farm'')
     = Inr ''www.google.com'' \<and>
   py_in ''google.com'' (lower ''www.google.com'') \<and>
   clean_website_url plain_lib ''https://www.google.com/search?q=Green+Acres+Sod+Farm'' = None"
proof -
  have "map_sum id netloc
          (urlparse plain_lib ''https://www.google.com/search?q=Green+Acres+Sod+Farm'')
        = Inr ''www.google.com''"
    by (simp add: url_eval remove_chars_def digit_def Let_def)
  moreover have "py_in ''google.com'' (lower ''www.google.com'')"
    by (simp add: lower_def lower_char_def startswith_def)
  moreover have "clean_website_url plain_lib
      ''https://www.google.com/search?q=Green+Acres+Sod+Farm'' = None"
    by (simp add: url_eval remove_chars_def digit_def strip_def whitespace_def lower_def
        lower_char_def Let_def)
  ultimately show ?thesis
    using search_run by (simp add: search_record_def)
qed

end
